theory Spec2Isabelle
  imports Main "HOL-Library.Word" "HOL-Library.Sublist"
begin

section \<open>JavaScript strings and the library functions the shell uses\<close>

text \<open>
  A JavaScript string is a sequence of 16-bit UTF-16 code units; \<open>length\<close>, \<open>slice\<close>,
  \<open>includes\<close>, \<open>startsWith\<close>, \<open>split\<close> and \<open>trim\<close> all work on code units.
  \<open>js\<close> embeds an ASCII literal written in the theory.
\<close>

type_synonym jsstring = "16 word list"

definition js :: "string \<Rightarrow> jsstring" where
  "js s = map (\<lambda>c. of_nat (of_char c)) s"

text \<open>Errors of the shell: a rejected backend call carries the rejection value (shown
  with string concatenation by the handlers), \<open>encodeURIComponent\<close> raises \<open>URIError\<close>.\<close>

datatype error = Rejected jsstring | URIError

text \<open>An error as string concatenation shows it.\<close>

definition errorText :: "error \<Rightarrow> jsstring" where
  "errorText e = (case e of Rejected m \<Rightarrow> m | URIError \<Rightarrow> js ''URIError: URI malformed'')"

text \<open>\<open>s.startsWith(p)\<close> and \<open>s.includes(p)\<close>.\<close>

fun startsWith :: "jsstring \<Rightarrow> jsstring \<Rightarrow> bool" where
  "startsWith s [] = True"
| "startsWith [] (p # ps) = False"
| "startsWith (c # cs) (p # ps) = (c = p \<and> startsWith cs ps)"

fun includes_str :: "jsstring \<Rightarrow> jsstring \<Rightarrow> bool" where
  "includes_str [] p = startsWith [] p"
| "includes_str (c # cs) p = (startsWith (c # cs) p \<or> includes_str cs p)"

text \<open>\<open>s.slice(start, end)\<close>: a negative index counts from the end, both indices are
  clamped into \<open>0..length\<close>, and an empty range gives the empty string; it never raises.\<close>

definition slice :: "int \<Rightarrow> int \<Rightarrow> jsstring \<Rightarrow> jsstring" where
  "slice start end s =
     (let len = int (length s);
          from = (if start < 0 then max (len + start) 0 else min start len);
          to = (if end < 0 then max (len + end) 0 else min end len)
      in take (nat (max (to - from) 0)) (drop (nat from) s))"

text \<open>White space as \<open>trim\<close> and \<open>parseInt\<close> strip it (WhiteSpace and LineTerminator).\<close>

definition isWhiteSpace :: "16 word \<Rightarrow> bool" where
  "isWhiteSpace c =
     (c = 0x09 \<or> c = 0x0A \<or> c = 0x0B \<or> c = 0x0C \<or> c = 0x0D \<or> c = 0x20 \<or> c = 0xA0
      \<or> c = 0x1680 \<or> (0x2000 \<le> c \<and> c \<le> 0x200A) \<or> c = 0x2028 \<or> c = 0x2029
      \<or> c = 0x202F \<or> c = 0x205F \<or> c = 0x3000 \<or> c = 0xFEFF)"

definition trimStart :: "jsstring \<Rightarrow> jsstring" where
  "trimStart s = dropWhile isWhiteSpace s"

definition trim :: "jsstring \<Rightarrow> jsstring" where
  "trim s = rev (dropWhile isWhiteSpace (rev (dropWhile isWhiteSpace s)))"

text \<open>\<open>s.split(sep)\<close> for a separator of one code unit: the pieces between the
  separators, in order; the empty string splits into one empty piece.\<close>

fun split_acc :: "16 word \<Rightarrow> jsstring \<Rightarrow> jsstring \<Rightarrow> jsstring list" where
  "split_acc sep cur [] = [rev cur]"
| "split_acc sep cur (c # cs) =
     (if c = sep then rev cur # split_acc sep [] cs else split_acc sep (c # cur) cs)"

definition split_str :: "16 word \<Rightarrow> jsstring \<Rightarrow> jsstring list" where
  "split_str sep s = split_acc sep [] s"

text \<open>
  A JavaScript number as far as the shell needs it: \<open>NaN\<close> or an integer.
  \<open>parseInt(s)\<close> with no radix: skip leading white space, read an optional sign,
  switch to radix 16 after a \<open>0x\<close>/\<open>0X\<close> prefix, then read the longest run of digits;
  no digit at all gives \<open>NaN\<close>, and whatever follows the digits is ignored.
  The value is the exact integer, which is what JavaScript returns up to \<open>2^53\<close>.
\<close>

datatype jsnum = NaN | Num int

definition isNaN :: "jsnum \<Rightarrow> bool" where
  "isNaN x = (x = NaN)"

definition digitValue :: "16 word \<Rightarrow> nat option" where
  "digitValue c =
     (if 0x30 \<le> c \<and> c \<le> 0x39 then Some (unat c - 0x30)
      else if 0x61 \<le> c \<and> c \<le> 0x7A then Some (unat c - 0x61 + 10)
      else if 0x41 \<le> c \<and> c \<le> 0x5A then Some (unat c - 0x41 + 10)
      else None)"

definition isRadixDigit :: "nat \<Rightarrow> 16 word \<Rightarrow> bool" where
  "isRadixDigit R c = (case digitValue c of None \<Rightarrow> False | Some d \<Rightarrow> d < R)"

definition radixValue :: "nat \<Rightarrow> jsstring \<Rightarrow> nat" where
  "radixValue R z =
     foldl (\<lambda>acc c. acc * R + (case digitValue c of None \<Rightarrow> 0 | Some d \<Rightarrow> d)) 0 z"

definition parseInt :: "jsstring \<Rightarrow> jsnum" where
  "parseInt string =
     (let s0 = trimStart string;
          sign = (if s0 \<noteq> [] \<and> hd s0 = 0x2D then (-1::int) else 1);
          s1 = (if s0 \<noteq> [] \<and> (hd s0 = 0x2B \<or> hd s0 = 0x2D) then tl s0 else s0);
          hex = (startsWith s1 (js ''0x'') \<or> startsWith s1 (js ''0X''));
          R = (if hex then 16 else 10);
          s2 = (if hex then drop 2 s1 else s1);
          z = takeWhile (isRadixDigit R) s2
      in if z = [] then NaN else Num (sign * int (radixValue R z)))"

text \<open>
  \<open>encodeURIComponent\<close>: letters, digits and \<open>- _ . ! ~ * ' ( )\<close> stay; every other
  code point is written as the \<open>%XX\<close> of its UTF-8 bytes, a surrogate pair being one
  code point; a surrogate without its partner raises \<open>URIError\<close>.
\<close>

definition uriUnescaped :: "16 word \<Rightarrow> bool" where
  "uriUnescaped c =
     ((0x41 \<le> c \<and> c \<le> 0x5A) \<or> (0x61 \<le> c \<and> c \<le> 0x7A) \<or> (0x30 \<le> c \<and> c \<le> 0x39)
      \<or> c = 0x2D \<or> c = 0x5F \<or> c = 0x2E \<or> c = 0x21 \<or> c = 0x7E \<or> c = 0x2A
      \<or> c = 0x27 \<or> c = 0x28 \<or> c = 0x29)"

definition utf8 :: "nat \<Rightarrow> nat list" where
  "utf8 cp =
     (if cp < 0x80 then [cp]
      else if cp < 0x800 then [0xC0 + cp div 0x40, 0x80 + cp mod 0x40]
      else if cp < 0x10000 then
        [0xE0 + cp div 0x1000, 0x80 + (cp div 0x40) mod 0x40, 0x80 + cp mod 0x40]
      else [0xF0 + cp div 0x40000, 0x80 + (cp div 0x1000) mod 0x40,
            0x80 + (cp div 0x40) mod 0x40, 0x80 + cp mod 0x40])"

definition hexDigit :: "nat \<Rightarrow> 16 word" where
  "hexDigit n = (if n < 10 then of_nat (0x30 + n) else of_nat (0x41 + (n - 10)))"

definition percentByte :: "nat \<Rightarrow> jsstring" where
  "percentByte b = [0x25, hexDigit (b div 16), hexDigit (b mod 16)]"

definition percentCodePoint :: "nat \<Rightarrow> jsstring" where
  "percentCodePoint cp = concat (map percentByte (utf8 cp))"

definition isLeadSurrogate :: "16 word \<Rightarrow> bool" where
  "isLeadSurrogate c = (0xD800 \<le> c \<and> c \<le> 0xDBFF)"

definition isTrailSurrogate :: "16 word \<Rightarrow> bool" where
  "isTrailSurrogate c = (0xDC00 \<le> c \<and> c \<le> 0xDFFF)"

definition pairCodePoint :: "16 word \<Rightarrow> 16 word \<Rightarrow> nat" where
  "pairCodePoint hi lo = (unat hi - 0xD800) * 0x400 + (unat lo - 0xDC00) + 0x10000"

definition emit :: "jsstring \<Rightarrow> error + jsstring \<Rightarrow> error + jsstring" where
  "emit out rest = (case rest of Inl e \<Rightarrow> Inl e | Inr r \<Rightarrow> Inr (out @ r))"

fun encodeURIComponent :: "jsstring \<Rightarrow> error + jsstring" where
  "encodeURIComponent [] = Inr []"
| "encodeURIComponent [c] =
     (if uriUnescaped c then Inr [c]
      else if isLeadSurrogate c \<or> isTrailSurrogate c then Inl URIError
      else Inr (percentCodePoint (unat c)))"
| "encodeURIComponent (c # d # ds) =
     (if uriUnescaped c then emit [c] (encodeURIComponent (d # ds))
      else if isTrailSurrogate c then Inl URIError
      else if isLeadSurrogate c then
        (if isTrailSurrogate d
         then emit (percentCodePoint (pairCodePoint c d)) (encodeURIComponent ds)
         else Inl URIError)
      else emit (percentCodePoint (unat c)) (encodeURIComponent (d # ds)))"

text \<open>\<open>n.toString()\<close> for a non-negative integer such as \<open>Date.now()\<close>: its decimal
  digits, most significant first.\<close>

function toString_nat :: "nat \<Rightarrow> jsstring" where
  "toString_nat n =
     (if n < 10 then [of_nat (0x30 + n)]
      else toString_nat (n div 10) @ [of_nat (0x30 + n mod 10)])"
  by pat_completeness auto
termination
  by (relation "measure (\<lambda>n. n)") auto

declare toString_nat.simps [simp del]

text \<open>\<open>String.fromCharCode(n)\<close>: the one code unit \<open>n mod 2^16\<close>.\<close>

definition fromCharCode :: "int \<Rightarrow> jsstring" where
  "fromCharCode n = [word_of_int n]"

section \<open>TabRegistry (App.tsx)\<close>

text \<open>The \<open>Tab\<close> interface of \<open>lib/types.ts\<close>; the field \<open>id\<close> is \<open>id_tab\<close> here,
  the optional fields are options.\<close>

record Tab =
  id_tab :: jsstring
  title :: jsstring
  url :: jsstring
  isLoading :: bool
  isSecure :: bool
  isWhitelisted :: "bool option"
  favicon :: "jsstring option"

text \<open>The two pieces of tab state of \<open>App\<close>: \<open>tabs\<close> and \<open>activeTabId\<close>.\<close>

record TabState =
  tabs :: "Tab list"
  activeTabId :: jsstring

text \<open>The blank tab both \<open>addTab\<close> and \<open>closeTab\<close> build, with the given id. The
  id of a new tab is \<open>Date.now().toString()\<close>; the clock value \<open>now\<close> is an argument
  of the two functions.\<close>

definition blankTab :: "jsstring \<Rightarrow> Tab" where
  "blankTab i =
     \<lparr>id_tab = i, title = js ''New Tab'', url = [], isLoading = False, isSecure = True,
      isWhitelisted = None, favicon = None\<rparr>"

definition initialTabs :: TabState where
  "initialTabs = \<lparr>tabs = [blankTab (js ''1'')], activeTabId = js ''1''\<rparr>"

definition addTab :: "nat \<Rightarrow> TabState \<Rightarrow> TabState" where
  "addTab now st =
     (let newTab = blankTab (toString_nat now)
      in st\<lparr>tabs := tabs st @ [newTab], activeTabId := id_tab newTab\<rparr>)"

text \<open>\<open>xs.findIndex(p)\<close> is \<open>-1\<close> when nothing matches; \<open>xs[i]\<close> is \<open>undefined\<close>
  outside \<open>0..length-1\<close>.\<close>

fun findIndex :: "('a \<Rightarrow> bool) \<Rightarrow> 'a list \<Rightarrow> int" where
  "findIndex p [] = -1"
| "findIndex p (x # xs) =
     (if p x then 0 else (let i = findIndex p xs in if i < 0 then -1 else i + 1))"

definition at_index :: "'a list \<Rightarrow> int \<Rightarrow> 'a option" where
  "at_index xs i = (if 0 \<le> i \<and> i < int (length xs) then Some (xs ! nat i) else None)"

text \<open>
  \<open>closeTab\<close>: the backend notification is fire-and-forget with its failure swallowed,
  so it leaves no trace in the state. The handler is the one of the current render
  (its dependencies are \<open>activeTabId\<close> and \<open>tabs\<close>), so the values it closes over are
  those of the state it updates. \<open>closeTab_tabs\<close> is the updater given to \<open>setTabs\<close>,
  \<open>closeTab_active\<close> the one given to \<open>setActiveTabId\<close>.
\<close>

definition closeTab_tabs :: "nat \<Rightarrow> jsstring \<Rightarrow> Tab list \<Rightarrow> Tab list" where
  "closeTab_tabs now tabId prev =
     (let newTabs = filter (\<lambda>t. id_tab t \<noteq> tabId) prev
      in if length newTabs = 0 then [blankTab (toString_nat now)] else newTabs)"

definition closeTab_active :: "Tab list \<Rightarrow> jsstring \<Rightarrow> jsstring \<Rightarrow> jsstring" where
  "closeTab_active tabs0 tabId prev =
     (let currentIndex = findIndex (\<lambda>t. id_tab t = prev) tabs0;
          newTabs = filter (\<lambda>t. id_tab t \<noteq> tabId) tabs0
      in if length newTabs = 0 then []
         else (let newIndex = min currentIndex (int (length newTabs) - 1)
               in case at_index newTabs newIndex of
                    None \<Rightarrow> id_tab (hd newTabs)
                  | Some t \<Rightarrow> if id_tab t \<noteq> [] then id_tab t else id_tab (hd newTabs)))"

definition closeTab :: "nat \<Rightarrow> jsstring \<Rightarrow> TabState \<Rightarrow> TabState" where
  "closeTab now tabId st =
     st\<lparr>tabs := closeTab_tabs now tabId (tabs st),
        activeTabId := (if activeTabId st = tabId
                        then closeTab_active (tabs st) tabId (activeTabId st)
                        else activeTabId st)\<rparr>"

text \<open>\<open>const activeTab = tabs.find(t => t.id === activeTabId) || tabs[0]\<close>: the tab
  the main view shows.\<close>

definition activeTab :: "TabState \<Rightarrow> Tab option" where
  "activeTab st =
     (case find (\<lambda>t. id_tab t = activeTabId st) (tabs st) of
        Some t \<Rightarrow> Some t
      | None \<Rightarrow> at_index (tabs st) 0)"

text \<open>Sequences of \<open>open\<close>/\<open>close\<close> operations, each with the clock value it reads.\<close>

datatype tab_op = Open nat | Close nat jsstring

fun apply_tab_op :: "tab_op \<Rightarrow> TabState \<Rightarrow> TabState" where
  "apply_tab_op (Open now) st = addTab now st"
| "apply_tab_op (Close now tabId) st = closeTab now tabId st"

text \<open>\<open>run_tab_ops ops st\<close> lists the state reached after each operation in turn.\<close>

fun run_tab_ops :: "tab_op list \<Rightarrow> TabState \<Rightarrow> TabState list" where
  "run_tab_ops [] st = []"
| "run_tab_ops (op # ops) st = apply_tab_op op st # run_tab_ops ops (apply_tab_op op st)"

text \<open>\<open>updateTab\<close> merges a partial tab into the tab with the given id and leaves
  every other tab alone. The partial tabs the shell passes set among \<open>title\<close>,
  \<open>url\<close>, \<open>isLoading\<close> and \<open>isSecure\<close>.\<close>

record TabUpdates =
  u_title :: "jsstring option"
  u_url :: "jsstring option"
  u_isLoading :: "bool option"
  u_isSecure :: "bool option"

definition mergeTab :: "Tab \<Rightarrow> TabUpdates \<Rightarrow> Tab" where
  "mergeTab tab updates =
     tab\<lparr>title := (case u_title updates of None \<Rightarrow> title tab | Some v \<Rightarrow> v),
         url := (case u_url updates of None \<Rightarrow> url tab | Some v \<Rightarrow> v),
         isLoading := (case u_isLoading updates of None \<Rightarrow> isLoading tab | Some v \<Rightarrow> v),
         isSecure := (case u_isSecure updates of None \<Rightarrow> isSecure tab | Some v \<Rightarrow> v)\<rparr>"

definition updateTab :: "jsstring \<Rightarrow> TabUpdates \<Rightarrow> TabState \<Rightarrow> TabState" where
  "updateTab tabId updates st =
     st\<lparr>tabs := map (\<lambda>tab. if id_tab tab = tabId then mergeTab tab updates else tab) (tabs st)\<rparr>"

section \<open>NavigationResolver (navigateTo in App.tsx)\<close>

text \<open>The first statement of \<open>navigateTo\<close>: the URL it will load. A \<open>URIError\<close> of
  \<open>encodeURIComponent\<close> leaves \<open>navigateTo\<close> before any state is touched.\<close>

definition navigateTo_finalUrl :: "jsstring \<Rightarrow> error + jsstring" where
  "navigateTo_finalUrl input =
     (if \<not> includes_str input (js ''.'') \<or> includes_str input (js '' '')
      then emit (js ''https://duckduckgo.com/?q='') (encodeURIComponent input)
      else if \<not> startsWith input (js ''http://'') \<and> \<not> startsWith input (js ''https://'')
      then Inr (js ''https://'' @ input)
      else Inr input)"

text \<open>The synchronous part of \<open>navigateTo\<close>: the active tab is marked loading, with
  \<open>isSecure\<close> read off the final URL.\<close>

definition navigateTo_start :: "jsstring \<Rightarrow> TabState \<Rightarrow> error + TabState" where
  "navigateTo_start input st =
     (case navigateTo_finalUrl input of
        Inl e \<Rightarrow> Inl e
      | Inr finalUrl \<Rightarrow>
          Inr (updateTab (activeTabId st)
                 \<lparr>u_title = None, u_url = Some finalUrl, u_isLoading = Some True,
                  u_isSecure = Some (startsWith finalUrl (js ''https://''))\<rparr> st))"

text \<open>
  Modelled from the spec's words, for comparison with the code: an input has an
  explicit scheme when it starts with a scheme name (a letter, then letters,
  digits, \<open>+\<close>, \<open>-\<close> or \<open>.\<close>) followed by \<open>://\<close>.
\<close>

definition isAlpha :: "16 word \<Rightarrow> bool" where
  "isAlpha c = ((0x41 \<le> c \<and> c \<le> 0x5A) \<or> (0x61 \<le> c \<and> c \<le> 0x7A))"

definition isSchemeChar :: "16 word \<Rightarrow> bool" where
  "isSchemeChar c =
     (isAlpha c \<or> (0x30 \<le> c \<and> c \<le> 0x39) \<or> c = 0x2B \<or> c = 0x2D \<or> c = 0x2E)"

definition spec_hasExplicitScheme :: "jsstring \<Rightarrow> bool" where
  "spec_hasExplicitScheme s =
     (let name = takeWhile isSchemeChar s
      in name \<noteq> [] \<and> isAlpha (hd name) \<and> startsWith (drop (length name) s) (js ''://''))"

section \<open>IdentityController (App.tsx)\<close>

record FakePlugin =
  plugin_name :: jsstring
  plugin_description :: jsstring
  plugin_filename :: jsstring

record FakeFingerprint =
  sessionId :: jsstring
  hardwareConcurrency :: int
  deviceMemory :: int
  canvasNoiseSeed :: int
  webglVendor :: jsstring
  webglRenderer :: jsstring
  webglVersion :: jsstring
  audioNoiseSeed :: int
  installedFonts :: "jsstring list"
  plugins :: "FakePlugin list"
  maxTouchPoints :: int
  touchSupport :: bool

text \<open>\<open>PrivacyStatus\<close> of \<open>lib/types.ts\<close> and the \<open>PrivacyDetails\<close> of \<open>App\<close>. The
  geolocation and user-agent objects are only stored and shown, never inspected, so
  their types are parameters.\<close>

record PrivacyStatus =
  identityId :: jsstring
  isProtected :: bool
  trackersBlocked :: int
  fingerprintsBlocked :: int

record ('geo, 'ua) PrivacyDetails =
  fingerprint :: "FakeFingerprint option"
  geolocation :: "'geo option"
  userAgent :: "'ua option"

record ('geo, 'ua) IdentityState =
  privacyStatus :: PrivacyStatus
  privacyDetails :: "('geo, 'ua) PrivacyDetails"

text \<open>What \<open>regenerate_identity\<close> returns, as far as the shell reads it.\<close>

record ('geo, 'ua) FakeIdentity =
  identity_fingerprint :: FakeFingerprint
  identity_geolocation :: 'geo
  identity_userAgent :: 'ua

definition initialIdentity :: "('geo, 'ua) IdentityState" where
  "initialIdentity =
     \<lparr>privacyStatus = \<lparr>identityId = [], isProtected = True, trackersBlocked = 0,
                        fingerprintsBlocked = 0\<rparr>,
      privacyDetails = \<lparr>fingerprint = None, geolocation = None, userAgent = None\<rparr>\<rparr>"

text \<open>\<open>Promise.all\<close> of the three detail fetches: all three values, or the rejection
  of the first one (in argument order) that rejected.\<close>

definition promiseAll3 :: "error + 'a \<Rightarrow> error + 'b \<Rightarrow> error + 'c \<Rightarrow> error + ('a \<times> 'b \<times> 'c)" where
  "promiseAll3 a b c =
     (case a of Inl e \<Rightarrow> Inl e
      | Inr x \<Rightarrow> (case b of Inl e \<Rightarrow> Inl e
                 | Inr y \<Rightarrow> (case c of Inl e \<Rightarrow> Inl e | Inr z \<Rightarrow> Inr (x, y, z))))"

text \<open>\<open>initPrivacy\<close>, the effect run once at start.\<close>

definition initPrivacy ::
  "error + FakeFingerprint \<Rightarrow> error + 'geo \<Rightarrow> error + 'ua
     \<Rightarrow> ('geo, 'ua) IdentityState \<Rightarrow> ('geo, 'ua) IdentityState" where
  "initPrivacy fp geo ua st =
     (case promiseAll3 fp geo ua of
        Inl e \<Rightarrow> st
      | Inr (f, g, u) \<Rightarrow>
          st\<lparr>privacyDetails := \<lparr>fingerprint = Some f, geolocation = Some g, userAgent = Some u\<rparr>,
             privacyStatus := (privacyStatus st)\<lparr>identityId := sessionId f\<rparr>\<rparr>)"

text \<open>\<open>regenerateIdentity\<close>: the arguments are the backend's answers to
  \<open>regenerate_identity\<close> and to the three fetches sent after it.\<close>

definition regenerateIdentity ::
  "error + ('geo, 'ua) FakeIdentity \<Rightarrow> error + FakeFingerprint \<Rightarrow> error + 'geo \<Rightarrow> error + 'ua
     \<Rightarrow> ('geo, 'ua) IdentityState \<Rightarrow> ('geo, 'ua) IdentityState" where
  "regenerateIdentity regen fp geo ua st =
     (case regen of
        Inl e \<Rightarrow> st
      | Inr identity \<Rightarrow>
          (let st1 = st\<lparr>privacyStatus :=
                        (privacyStatus st)\<lparr>identityId := sessionId (identity_fingerprint identity)\<rparr>\<rparr>
           in case promiseAll3 fp geo ua of
                Inl e \<Rightarrow> st1
              | Inr (f, g, u) \<Rightarrow>
                  st1\<lparr>privacyDetails :=
                        \<lparr>fingerprint = Some f, geolocation = Some g, userAgent = Some u\<rparr>\<rparr>))"

section \<open>AuthGate and settings toggles (SettingsPanel.tsx)\<close>

text \<open>The keys of the \<open>settings\<close> object. The object is read and written by computed
  key (\<open>settings[key]\<close>, \<open>{...prev, [key]: v}\<close>), so it is a function on the keys.\<close>

datatype setting_key =
  torEnabled | httpsOnly | blockTrackers | blockMalware | scanDownloads | stripMetadata
  | blockWebRTC | fakeGeolocation | spoofFingerprint | stripReferrer | partitionStorage
  | autoRegenerateIdentity | secureKeyboard | blockAds

definition defaultSettings :: "setting_key \<Rightarrow> bool" where
  "defaultSettings k = (k \<noteq> torEnabled \<and> k \<noteq> autoRegenerateIdentity)"

text \<open>The state of \<open>SettingsPanel\<close> its handlers write. Geolocation, user agent, log
  entries and security-log entries are stored as they come.\<close>

record ('geo, 'ua, 'log, 'slog) PanelState =
  p_fingerprint :: "FakeFingerprint option"
  p_geolocation :: "'geo option"
  p_userAgent :: "'ua option"
  whitelist :: "jsstring list"
  logs :: "'log list"
  securityLogs :: "'slog list"
  isAuthenticated :: bool
  settingsPassword :: jsstring
  settingsPasswordError :: jsstring
  isLogsAuthenticated :: bool
  logsPassword :: jsstring
  logsPasswordError :: jsstring
  settings :: "setting_key \<Rightarrow> bool"

text \<open>The backend's answers to the calls one handler makes: \<open>Inl\<close> is a rejected call.
  \<open>get_all_settings\<close> answers with an object whose entries may be missing
  (\<open>??\<close> then takes the default); \<open>get_live_logs\<close> may answer \<open>null\<close>.\<close>

record ('geo, 'ua, 'log, 'raw) SettingsBackend =
  unlock_settings :: "error + bool"
  unlock_logs :: "error + bool"
  get_all_settings :: "error + (setting_key \<Rightarrow> bool option)"
  get_fake_fingerprint :: "error + FakeFingerprint"
  get_fake_geolocation :: "error + 'geo"
  get_fake_user_agent :: "error + 'ua"
  get_whitelist :: "error + jsstring list"
  get_encrypted_logs :: "error + 'log list"
  get_live_logs :: "error + 'raw list option"

definition loadSettings ::
  "('geo, 'ua, 'log, 'raw) SettingsBackend
     \<Rightarrow> ('geo, 'ua, 'log, 'slog) PanelState \<Rightarrow> ('geo, 'ua, 'log, 'slog) PanelState" where
  "loadSettings be st =
     (case get_all_settings be of
        Inl e \<Rightarrow> st
      | Inr backendSettings \<Rightarrow>
          st\<lparr>settings := (\<lambda>k. case backendSettings k of
                                 None \<Rightarrow> defaultSettings k | Some v \<Rightarrow> v)\<rparr>)"

text \<open>\<open>loadData\<close>: the four fetches succeed together or nothing is stored; then the
  log is fetched, and \<open>fallbackLogs\<close> (the two start-up entries the source writes
  out) is stored when that fails.\<close>

definition loadData ::
  "'log list \<Rightarrow> ('geo, 'ua, 'log, 'raw) SettingsBackend
     \<Rightarrow> ('geo, 'ua, 'log, 'slog) PanelState \<Rightarrow> ('geo, 'ua, 'log, 'slog) PanelState" where
  "loadData fallbackLogs be st =
     (case get_fake_fingerprint be of Inl e \<Rightarrow> st | Inr fp \<Rightarrow>
      (case get_fake_geolocation be of Inl e \<Rightarrow> st | Inr geo \<Rightarrow>
       (case get_fake_user_agent be of Inl e \<Rightarrow> st | Inr ua \<Rightarrow>
        (case get_whitelist be of Inl e \<Rightarrow> st | Inr wl \<Rightarrow>
           st\<lparr>p_fingerprint := Some fp, p_geolocation := Some geo, p_userAgent := Some ua,
              whitelist := wl,
              logs := (case get_encrypted_logs be of
                         Inl e \<Rightarrow> fallbackLogs | Inr logData \<Rightarrow> logData)\<rparr>))))"

text \<open>\<open>generateSecurityLogs\<close>: the live logs, each formatted with its index, when
  there are any; otherwise the demo entries the source writes out. \<open>format\<close> is the
  callback given to \<open>map\<close>, \<open>demo\<close> the six demo entries.\<close>

definition generateSecurityLogs ::
  "(nat \<Rightarrow> 'raw \<Rightarrow> 'slog) \<Rightarrow> 'slog list \<Rightarrow> ('geo, 'ua, 'log, 'raw) SettingsBackend
     \<Rightarrow> ('geo, 'ua, 'log, 'slog) PanelState \<Rightarrow> ('geo, 'ua, 'log, 'slog) PanelState" where
  "generateSecurityLogs format demo be st =
     (case get_live_logs be of
        Inr (Some liveLogs) \<Rightarrow>
          (if length liveLogs > 0
           then st\<lparr>securityLogs := map (\<lambda>(i, log). format i log) (enumerate 0 liveLogs)\<rparr>
           else st\<lparr>securityLogs := demo\<rparr>)
      | _ \<Rightarrow> st\<lparr>securityLogs := demo\<rparr>)"

definition handleSettingsLogin ::
  "'log list \<Rightarrow> (nat \<Rightarrow> 'raw \<Rightarrow> 'slog) \<Rightarrow> 'slog list \<Rightarrow> ('geo, 'ua, 'log, 'raw) SettingsBackend
     \<Rightarrow> ('geo, 'ua, 'log, 'slog) PanelState \<Rightarrow> ('geo, 'ua, 'log, 'slog) PanelState" where
  "handleSettingsLogin fallbackLogs format demo be st =
     (case unlock_settings be of
        Inl e \<Rightarrow> st\<lparr>settingsPasswordError := js ''Authentication failed''\<rparr>
      | Inr success \<Rightarrow>
          if success
          then generateSecurityLogs format demo be
                 (loadData fallbackLogs be
                    (loadSettings be
                       (st\<lparr>isAuthenticated := True, settingsPasswordError := []\<rparr>)))
          else st\<lparr>settingsPasswordError := js ''Incorrect password''\<rparr>)"

definition handleLogsLogin ::
  "('geo, 'ua, 'log, 'raw) SettingsBackend
     \<Rightarrow> ('geo, 'ua, 'log, 'slog) PanelState \<Rightarrow> ('geo, 'ua, 'log, 'slog) PanelState" where
  "handleLogsLogin be st =
     (case unlock_logs be of
        Inl e \<Rightarrow> st\<lparr>logsPasswordError := js ''Authentication failed''\<rparr>
      | Inr success \<Rightarrow>
          if success
          then (let st1 = st\<lparr>isLogsAuthenticated := True, logsPasswordError := []\<rparr>
                in case get_encrypted_logs be of
                     Inl e \<Rightarrow> st1
                   | Inr logData \<Rightarrow> st1\<lparr>logs := logData\<rparr>)
          else st\<lparr>logsPasswordError := js ''Incorrect password''\<rparr>)"

text \<open>\<open>handleClose\<close> locks both domains and clears both passwords (the two lock
  notifications to the backend leave no trace in the panel state).\<close>

definition handleClose :: "('geo, 'ua, 'log, 'slog) PanelState \<Rightarrow> ('geo, 'ua, 'log, 'slog) PanelState" where
  "handleClose st =
     st\<lparr>isAuthenticated := False, isLogsAuthenticated := False,
        settingsPassword := [], logsPassword := []\<rparr>"

text \<open>The effect on \<open>isOpen\<close>, when the panel opens.\<close>

definition onPanelOpen :: "('geo, 'ua, 'log, 'slog) PanelState \<Rightarrow> ('geo, 'ua, 'log, 'slog) PanelState" where
  "onPanelOpen st =
     st\<lparr>isAuthenticated := False, isLogsAuthenticated := False,
        settingsPassword := [], logsPassword := [],
        settingsPasswordError := [], logsPasswordError := []\<rparr>"

text \<open>
  \<open>toggleSetting\<close> in its two steps. The click computes \<open>newValue\<close> from the settings
  of the render it belongs to and writes it; if \<open>set_setting\<close> rejects, the handler
  writes \<open>!newValue\<close> into whatever the settings are by then.
\<close>

definition toggleSetting_newValue :: "setting_key \<Rightarrow> ('geo, 'ua, 'log, 'slog) PanelState \<Rightarrow> bool" where
  "toggleSetting_newValue k st = (\<not> settings st k)"

definition toggleSetting_apply ::
  "setting_key \<Rightarrow> bool \<Rightarrow> ('geo, 'ua, 'log, 'slog) PanelState \<Rightarrow> ('geo, 'ua, 'log, 'slog) PanelState" where
  "toggleSetting_apply k newValue prev = prev\<lparr>settings := (settings prev)(k := newValue)\<rparr>"

definition toggleSetting_revert ::
  "setting_key \<Rightarrow> bool \<Rightarrow> ('geo, 'ua, 'log, 'slog) PanelState \<Rightarrow> ('geo, 'ua, 'log, 'slog) PanelState" where
  "toggleSetting_revert k newValue prev = prev\<lparr>settings := (settings prev)(k := \<not> newValue)\<rparr>"

definition toggleSetting ::
  "setting_key \<Rightarrow> error + unit \<Rightarrow> ('geo, 'ua, 'log, 'slog) PanelState \<Rightarrow> ('geo, 'ua, 'log, 'slog) PanelState" where
  "toggleSetting k set_setting st =
     (let newValue = toggleSetting_newValue k st;
          st1 = toggleSetting_apply k newValue st
      in case set_setting of
           Inr u \<Rightarrow> st1
         | Inl e \<Rightarrow> toggleSetting_revert k newValue st1)"

section \<open>ToolSessionManager (ITToolsPanel.tsx)\<close>

record ('res) ToolsState =
  sshHost :: jsstring
  sshPort :: jsstring
  sshUser :: jsstring
  sshPassword :: jsstring
  sshConnected :: bool
  sshOutput :: "jsstring list"
  sshCommand :: jsstring
  connectionId :: jsstring
  networkHost :: jsstring
  portRange :: jsstring
  networkResult :: "'res option"
  tools_isLoading :: bool

definition initialTools :: "'res ToolsState" where
  "initialTools =
     \<lparr>sshHost = [], sshPort = js ''22'', sshUser = [], sshPassword = [], sshConnected = False,
      sshOutput = [], sshCommand = [], connectionId = [], networkHost = [],
      portRange = js ''22,80,443,3306,5432'', networkResult = None, tools_isLoading = False\<rparr>"

text \<open>\<open>handleSshConnect\<close>: what runs before the call is awaited, and what runs when it
  settles. A rejection is shown by string concatenation (\<open>'Error: ' + error\<close>).\<close>

definition handleSshConnect_begin :: "'res ToolsState \<Rightarrow> 'res ToolsState" where
  "handleSshConnect_begin st =
     st\<lparr>tools_isLoading := True,
        sshOutput := [js ''Connecting to '' @ sshHost st @ js ''...'']\<rparr>"

definition handleSshConnect_settle :: "error + jsstring \<Rightarrow> 'res ToolsState \<Rightarrow> 'res ToolsState" where
  "handleSshConnect_settle ssh_connect st =
     (case ssh_connect of
        Inr result_id \<Rightarrow>
          st\<lparr>connectionId := result_id, sshConnected := True,
             sshOutput := sshOutput st @ [js ''Connected successfully!'', []],
             tools_isLoading := False\<rparr>
      | Inl e \<Rightarrow>
          st\<lparr>sshOutput := sshOutput st @ [js ''Error: '' @ errorText e],
             tools_isLoading := False\<rparr>)"

definition handleSshConnect :: "error + jsstring \<Rightarrow> 'res ToolsState \<Rightarrow> 'res ToolsState" where
  "handleSshConnect ssh_connect st = handleSshConnect_settle ssh_connect (handleSshConnect_begin st)"

definition handleSshDisconnect :: "error + unit \<Rightarrow> 'res ToolsState \<Rightarrow> 'res ToolsState" where
  "handleSshDisconnect ssh_disconnect st =
     (case ssh_disconnect of
        Inr u \<Rightarrow>
          st\<lparr>sshConnected := False, sshOutput := sshOutput st @ [js ''Disconnected.''],
             connectionId := []\<rparr>
      | Inl e \<Rightarrow>
          st\<lparr>sshOutput := sshOutput st @ [js ''Error: '' @ errorText e]\<rparr>)"

text \<open>The answer of \<open>ssh_execute\<close>; a stream that is missing or empty is falsy and
  prints nothing.\<close>

record SshExecuteResult =
  stdout :: "jsstring option"
  stderr :: "jsstring option"

definition handleSshExecute :: "error + SshExecuteResult \<Rightarrow> 'res ToolsState \<Rightarrow> 'res ToolsState" where
  "handleSshExecute ssh_execute st =
     (if trim (sshCommand st) = [] then st
      else (let st1 = st\<lparr>sshOutput := sshOutput st @ [js ''$ '' @ sshCommand st]\<rparr>
            in case ssh_execute of
                 Inl e \<Rightarrow>
                   st1\<lparr>sshOutput := sshOutput st1 @ [js ''Error: '' @ errorText e]\<rparr>
               | Inr result \<Rightarrow>
                   (let st2 = (case stdout result of
                                 None \<Rightarrow> st1
                               | Some out \<Rightarrow>
                                   if out \<noteq> [] then st1\<lparr>sshOutput := sshOutput st1 @ [out]\<rparr>
                                   else st1);
                        st3 = (case stderr result of
                                 None \<Rightarrow> st2
                               | Some err \<Rightarrow>
                                   if err \<noteq> []
                                   then st2\<lparr>sshOutput := sshOutput st2 @ [js ''stderr: '' @ err]\<rparr>
                                   else st2)
                    in st3\<lparr>sshCommand := []\<rparr>)))"

text \<open>\<open>handlePortScan\<close>: the port list sent to the backend, and the handler, with
  the backend as a function of the ports it is sent. (\<open>isLoading\<close> is set while the call
  is pending and cleared when it settles.)\<close>

definition handlePortScan_ports :: "jsstring \<Rightarrow> jsnum list" where
  "handlePortScan_ports input =
     filter (\<lambda>p. \<not> isNaN p) (map (\<lambda>p. parseInt (trim p)) (split_str 0x2C input))"

definition handlePortScan :: "(jsnum list \<Rightarrow> error + 'res) \<Rightarrow> 'res ToolsState \<Rightarrow> 'res ToolsState" where
  "handlePortScan network_port_scan st =
     (case network_port_scan (handlePortScan_ports (portRange st)) of
        Inr result \<Rightarrow> st\<lparr>networkResult := Some result, tools_isLoading := False\<rparr>
      | Inl e \<Rightarrow> st\<lparr>tools_isLoading := False\<rparr>)"

section \<open>DownloadTracker (DownloadManager.tsx)\<close>

text \<open>
  \<open>DownloadItem\<close>, with \<open>d_\<close> before the names other records use. Sizes and times are
  non-negative integers; an optional or nullable field is an option. The scan result
  is stored as it comes.
\<close>

record 'scan DownloadItem =
  d_id :: jsstring
  d_url :: jsstring
  d_filename :: jsstring
  save_path :: "jsstring option"
  d_size :: "nat option"
  size_total :: "nat option"
  downloaded :: nat
  size_downloaded :: "nat option"
  status :: "jsstring option"
  state :: "jsstring option"
  scan_result :: "'scan option"
  file_hash :: "jsstring option"
  d_error :: "jsstring option"
  started_at :: nat
  completed_at :: "nat option"

record DownloadStats =
  total_downloads :: nat
  total_scanned :: nat
  threats_blocked :: nat
  pending :: nat
  in_progress :: nat

record 'scan DownloadState =
  downloads :: "'scan DownloadItem list"
  scanEnabled :: bool
  stats :: DownloadStats

definition initialDownloads :: "'scan DownloadState" where
  "initialDownloads =
     \<lparr>downloads = [], scanEnabled = True,
      stats = \<lparr>total_downloads = 0, total_scanned = 0, threats_blocked = 0, pending = 0,
               in_progress = 0\<rparr>\<rparr>"

text \<open>The callback of \<open>data.map\<close>: \<open>size_total || null\<close> and \<open>size_downloaded || 0\<close> turn
  a missing value and zero alike into \<open>null\<close> and \<open>0\<close>.\<close>

definition mirrorItem :: "'scan DownloadItem \<Rightarrow> 'scan DownloadItem" where
  "mirrorItem d =
     d\<lparr>d_size := (case size_total d of None \<Rightarrow> None | Some n \<Rightarrow> if n = 0 then None else Some n),
       downloaded := (case size_downloaded d of None \<Rightarrow> 0 | Some n \<Rightarrow> n),
       status := state d\<rparr>"

text \<open>\<open>d.state === 'Failed' && d.error?.includes('threat')\<close>.\<close>

definition isThreat :: "'scan DownloadItem \<Rightarrow> bool" where
  "isThreat d =
     (state d = Some (js ''Failed'')
      \<and> (case d_error d of None \<Rightarrow> False | Some e \<Rightarrow> includes_str e (js ''threat'')))"

definition computeStats :: "'scan DownloadItem list \<Rightarrow> DownloadStats" where
  "computeStats data =
     \<lparr>total_downloads = length data,
      total_scanned =
        length (filter (\<lambda>d. state d = Some (js ''Completed'') \<or> state d = Some (js ''Safe'')) data),
      threats_blocked = length (filter isThreat data),
      pending = length (filter (\<lambda>d. state d = Some (js ''Pending'')) data),
      in_progress = length (filter (\<lambda>d. state d = Some (js ''Downloading'')) data)\<rparr>"

text \<open>\<open>loadDownloads\<close>, run when the panel opens and on every tick of the 2-second
  interval; the argument is the backend's answer to \<open>get_downloads\<close>.\<close>

definition loadDownloads :: "error + 'scan DownloadItem list \<Rightarrow> 'scan DownloadState \<Rightarrow> 'scan DownloadState" where
  "loadDownloads get_downloads st =
     (case get_downloads of
        Inl e \<Rightarrow> st
      | Inr data \<Rightarrow> st\<lparr>downloads := map mirrorItem data, stats := computeStats data\<rparr>)"

section \<open>KeyboardInputMachine (VirtualKeyboard.tsx)\<close>

datatype key_type =
  Character | Shift | Backspace | Enter | Space | Tab_key | CapsLock | Number | Symbol

text \<open>\<open>KeyInfo\<close> without its \<open>width\<close>, which only the layout reads.\<close>

record KeyInfo =
  key :: jsstring
  display :: jsstring
  keyType :: key_type

text \<open>The answer of \<open>process_virtual_key\<close> as the handler reads it: the tag \<open>type\<close>,
  the property \<open>Character\<close> when the object has one, \<open>modifier\<close> and \<open>active\<close>.\<close>

record VirtualKeyResult =
  result_type :: jsstring
  result_Character :: "int option"
  modifier :: jsstring
  active :: bool

record KeyboardState =
  isShift :: bool
  isCaps :: bool
  shuffled :: bool
  inputValue :: jsstring

definition initialKeyboard :: KeyboardState where
  "initialKeyboard = \<lparr>isShift = False, isCaps = False, shuffled = False, inputValue = []\<rparr>"

text \<open>\<open>handleKeyPress\<close> returns the new state and the calls of \<open>onInput\<close> it made.
  Everything in it runs inside \<open>try\<close>, and a rejected call is only logged.\<close>

definition handleKeyPress ::
  "error + VirtualKeyResult \<Rightarrow> KeyInfo \<Rightarrow> KeyboardState \<Rightarrow> KeyboardState \<times> jsstring list" where
  "handleKeyPress process_virtual_key k st =
     (case process_virtual_key of
        Inl e \<Rightarrow> (st, [])
      | Inr result \<Rightarrow>
          if result_type result = js ''Character'' then
            (st\<lparr>inputValue := inputValue st @
                   (case result_Character result of
                      Some n \<Rightarrow> fromCharCode n
                    | None \<Rightarrow> key k)\<rparr>, [key k])
          else if result_type result = js ''Backspace'' then
            (st\<lparr>inputValue := slice 0 (-1) (inputValue st)\<rparr>, [js ''Backspace''])
          else if result_type result = js ''Enter'' then (st, [js ''Enter''])
          else if result_type result = js ''Space'' then
            (st\<lparr>inputValue := inputValue st @ js '' ''\<rparr>, [js '' ''])
          else if result_type result = js ''ModifierToggled'' then
            (if modifier result = js ''Shift'' then (st\<lparr>isShift := active result\<rparr>, [])
             else if modifier result = js ''CapsLock'' then (st\<lparr>isCaps := active result\<rparr>, [])
             else (st, []))
          else (st, []))"

section \<open>Sample values for evaluating the handlers\<close>

definition sampleTabs :: TabState where
  "sampleTabs = addTab 7 (addTab 5 initialTabs)"

definition sampleFingerprint :: "jsstring \<Rightarrow> FakeFingerprint" where
  "sampleFingerprint sid =
     \<lparr>sessionId = sid, hardwareConcurrency = 8, deviceMemory = 8, canvasNoiseSeed = 17,
      webglVendor = js ''Intel Inc.'', webglRenderer = js ''Intel Iris'',
      webglVersion = js ''WebGL 2.0'', audioNoiseSeed = 23, installedFonts = [js ''Arial''],
      plugins = [], maxTouchPoints = 0, touchSupport = False\<rparr>"

definition sampleIdentity :: "(nat, nat) FakeIdentity" where
  "sampleIdentity =
     \<lparr>identity_fingerprint = sampleFingerprint (js ''new''), identity_geolocation = 1,
      identity_userAgent = 2\<rparr>"

definition sampleIdentityState :: "(nat, nat) IdentityState" where
  "sampleIdentityState =
     \<lparr>privacyStatus = \<lparr>identityId = js ''old'', isProtected = True, trackersBlocked = 0,
                        fingerprintsBlocked = 0\<rparr>,
      privacyDetails = \<lparr>fingerprint = Some (sampleFingerprint (js ''old'')),
                         geolocation = Some 5, userAgent = Some 6\<rparr>\<rparr>"

definition sampleBackend :: "(nat, nat, nat, nat) SettingsBackend" where
  "sampleBackend =
     \<lparr>unlock_settings = Inr True, unlock_logs = Inr True,
      get_all_settings = Inr (\<lambda>k. if k = torEnabled then Some True else None),
      get_fake_fingerprint = Inr (sampleFingerprint (js ''s1'')),
      get_fake_geolocation = Inr 1, get_fake_user_agent = Inr 2,
      get_whitelist = Inr [js ''example.com''],
      get_encrypted_logs = Inl (Rejected (js ''locked'')),
      get_live_logs = Inr (Some [7, 8])\<rparr>"

definition samplePanel :: "(nat, nat, nat, nat) PanelState" where
  "samplePanel =
     \<lparr>p_fingerprint = None, p_geolocation = None, p_userAgent = None, whitelist = [],
      logs = [], securityLogs = [],
      isAuthenticated = False, settingsPassword = js ''admin'', settingsPasswordError = [],
      isLogsAuthenticated = False, logsPassword = js ''audit'',
      logsPasswordError = js ''Incorrect password'',
      settings = defaultSettings\<rparr>"

definition sampleTools :: "unit ToolsState" where
  "sampleTools = initialTools\<lparr>sshHost := js ''h'', sshOutput := [js ''old''], sshCommand := js ''ls''\<rparr>"

definition sampleItem :: "jsstring \<Rightarrow> jsstring \<Rightarrow> unit DownloadItem" where
  "sampleItem i s =
     \<lparr>d_id = i, d_url = js ''https://example.com/f.zip'', d_filename = js ''f.zip'',
      save_path = None, d_size = None, size_total = Some 100, downloaded = 0,
      size_downloaded = Some 10, status = None, state = Some s, scan_result = None,
      file_hash = None, d_error = None, started_at = 0, completed_at = None\<rparr>"

definition sampleBackspace :: VirtualKeyResult where
  "sampleBackspace =
     \<lparr>result_type = js ''Backspace'', result_Character = None, modifier = [], active = False\<rparr>"

definition sampleKey :: KeyInfo where
  "sampleKey = \<lparr>key = js ''Backspace'', display = js ''Bksp'', keyType = Backspace\<rparr>"

section \<open>Properties of the TabRegistry\<close>

lemma closeTab_tabs_nonempty: "closeTab_tabs now tabId prev \<noteq> []"
  by (simp add: closeTab_tabs_def Let_def)

lemma apply_tab_op_nonempty: "tabs (apply_tab_op op st) \<noteq> []"
  by (cases op) (simp_all add: addTab_def closeTab_def closeTab_tabs_nonempty Let_def)

lemma run_tab_ops_nonempty: "s \<in> set (run_tab_ops ops st) \<Longrightarrow> tabs s \<noteq> []"
proof (induction ops arbitrary: st)
  case Nil
  then show ?case by simp
next
  case (Cons op ops)
  then show ?case using apply_tab_op_nonempty by auto
qed

lemma closeTab_last_tab: "tabs st = [t] \<Longrightarrow> tabs (closeTab now (id_tab t) st) = [blankTab (toString_nat now)]"
  by (simp add: closeTab_def closeTab_tabs_def)

text \<open>
  Claim C1. Starting from the initial single blank tab, after every operation of every
  sequence of open and close operations the tab list holds at least one tab; and
  closing the only remaining tab replaces the list by one fresh blank tab with title
  "New Tab", empty url, not loading, secure.
\<close>

theorem C1_registry_never_empty:
  "(\<forall>s \<in> set (run_tab_ops ops initialTabs). 1 \<le> length (tabs s))
   \<and> (tabs st = [t] \<longrightarrow>
        (\<exists>fresh. tabs (closeTab now (id_tab t) st) = [fresh]
           \<and> title fresh = js ''New Tab'' \<and> url fresh = []
           \<and> isLoading fresh = False \<and> isSecure fresh = True))"
proof (intro conjI ballI impI)
  fix s assume "s \<in> set (run_tab_ops ops initialTabs)"
  then have "tabs s \<noteq> []" by (rule run_tab_ops_nonempty)
  then show "1 \<le> length (tabs s)" by (cases "tabs s") simp_all
next
  assume "tabs st = [t]"
  then have "tabs (closeTab now (id_tab t) st) = [blankTab (toString_nat now)]"
    by (rule closeTab_last_tab)
  then show "\<exists>fresh. tabs (closeTab now (id_tab t) st) = [fresh]
           \<and> title fresh = js ''New Tab'' \<and> url fresh = []
           \<and> isLoading fresh = False \<and> isSecure fresh = True"
    by (simp add: blankTab_def)
qed

theorem C1_registry_never_empty_witness:
  "closeTab 5 (js ''1'') initialTabs \<in> set (run_tab_ops [Close 5 (js ''1''), Open 7] initialTabs)
   \<and> 1 \<le> length (tabs (closeTab 5 (js ''1'') initialTabs))
   \<and> tabs initialTabs = [blankTab (js ''1'')]
   \<and> (\<exists>fresh. tabs (closeTab 5 (id_tab (blankTab (js ''1''))) initialTabs) = [fresh]
           \<and> title fresh = js ''New Tab'' \<and> url fresh = []
           \<and> isLoading fresh = False \<and> isSecure fresh = True)"
proof -
  have mem: "closeTab 5 (js ''1'') initialTabs
               \<in> set (run_tab_ops [Close 5 (js ''1''), Open 7] initialTabs)"
    by simp
  have one: "tabs initialTabs = [blankTab (js ''1'')]"
    by (simp add: initialTabs_def)
  note inst = C1_registry_never_empty
    [of "[Close 5 (js ''1''), Open 7]" initialTabs "blankTab (js ''1'')" 5]
  from inst mem have "1 \<le> length (tabs (closeTab 5 (js ''1'') initialTabs))"
    by blast
  moreover from inst one
  have "\<exists>fresh. tabs (closeTab 5 (id_tab (blankTab (js ''1''))) initialTabs) = [fresh]
           \<and> title fresh = js ''New Tab'' \<and> url fresh = []
           \<and> isLoading fresh = False \<and> isSecure fresh = True"
    by blast
  ultimately show ?thesis using mem one by blast
qed

subsection \<open>The active tab after a close\<close>

lemma findIndex_lt: "findIndex p xs < int (length xs)"
  by (induction xs) (auto simp: Let_def)

lemma findIndex_nonneg_iff: "(0 \<le> findIndex p xs) = (\<exists>x \<in> set xs. p x)"
  by (induction xs) (auto simp: Let_def)

lemma toString_nat_step:
  "10 \<le> n \<Longrightarrow> toString_nat n = toString_nat (n div 10) @ [of_nat (0x30 + n mod 10)]"
  "n < 10 \<Longrightarrow> toString_nat n = [of_nat (0x30 + n)]"
  by (subst toString_nat.simps, simp)+

lemma toString_nat_nonempty: "toString_nat n \<noteq> []"
  by (subst toString_nat.simps) simp

text \<open>
  While a tab remains, closing the active tab moves \<open>activeTabId\<close> to the remaining
  tab at the old index clamped into the shrunk list. (Ids are never empty: they are
  \<open>'1'\<close> or the decimal digits of a clock value.)
\<close>

lemma closeTab_active_clamps:
  assumes ex: "\<exists>t \<in> set tabs0. id_tab t = tabId"
    and ne: "\<forall>t \<in> set tabs0. id_tab t \<noteq> []"
    and rem: "filter (\<lambda>t. id_tab t \<noteq> tabId) tabs0 \<noteq> []"
  shows "closeTab_active tabs0 tabId tabId =
           id_tab (filter (\<lambda>t. id_tab t \<noteq> tabId) tabs0
                     ! min (nat (findIndex (\<lambda>t. id_tab t = tabId) tabs0))
                           (length (filter (\<lambda>t. id_tab t \<noteq> tabId) tabs0) - 1))"
proof -
  define new where "new = filter (\<lambda>t. id_tab t \<noteq> tabId) tabs0"
  define i where "i = findIndex (\<lambda>t. id_tab t = tabId) tabs0"
  define k where "k = min i (int (length new) - 1)"
  have i0: "0 \<le> i" using ex by (simp add: i_def findIndex_nonneg_iff)
  have len: "0 < length new" using rem by (simp add: new_def)
  have k0: "0 \<le> k" and k1: "k < int (length new)" using i0 len by (auto simp: k_def)
  have nk: "nat k = min (nat i) (length new - 1)" using i0 len by (auto simp: k_def)
  have at: "at_index new k = Some (new ! nat k)"
    using k0 k1 by (simp add: at_index_def)
  have "new ! nat k \<in> set new" using k0 k1 by (intro nth_mem) auto
  then have "new ! nat k \<in> set tabs0" by (simp add: new_def)
  then have idne: "id_tab (new ! nat k) \<noteq> []" using ne by blast
  have "closeTab_active tabs0 tabId tabId = id_tab (new ! nat k)"
    using len at idne
    unfolding closeTab_active_def Let_def new_def [symmetric] i_def [symmetric] k_def [symmetric]
    by simp
  then show ?thesis using nk by (simp add: new_def i_def)
qed

lemma find_distinct_nth:
  "distinct (map f xs) \<Longrightarrow> k < length xs \<Longrightarrow> find (\<lambda>x. f x = f (xs ! k)) xs = Some (xs ! k)"
proof (induction xs arbitrary: k)
  case Nil
  then show ?case by simp
next
  case (Cons x xs)
  show ?case
  proof (cases k)
    case 0
    then show ?thesis by simp
  next
    case (Suc j)
    with Cons.prems have j: "j < length xs" and d: "distinct (map f xs)" and nx: "f x \<notin> f ` set xs"
      by auto
    from j have "f (xs ! j) \<in> f ` set xs" by simp
    with nx have "f x \<noteq> f (xs ! j)" by auto
    with Cons.IH [OF d j] Suc show ?thesis by simp
  qed
qed

text \<open>
  Closing the active tab while another tab remains (the part of claim C2 the code
  keeps): \<open>activeTabId\<close> becomes the id of the remaining tab at index
  \<open>min(oldActiveIndex, newLength - 1)\<close>, and with unique ids that tab is the one shown.
\<close>

theorem closeTab_active_tab_clamped:
  assumes act: "activeTabId st = tabId"
    and ex: "\<exists>t \<in> set (tabs st). id_tab t = tabId"
    and ne: "\<forall>t \<in> set (tabs st). id_tab t \<noteq> []"
    and dist: "distinct (map id_tab (tabs st))"
    and rem: "filter (\<lambda>t. id_tab t \<noteq> tabId) (tabs st) \<noteq> []"
  shows "activeTabId (closeTab now tabId st) =
           id_tab (filter (\<lambda>t. id_tab t \<noteq> tabId) (tabs st)
                   ! min (nat (findIndex (\<lambda>t. id_tab t = tabId) (tabs st)))
                         (length (filter (\<lambda>t. id_tab t \<noteq> tabId) (tabs st)) - 1))
         \<and> activeTab (closeTab now tabId st) =
           Some (filter (\<lambda>t. id_tab t \<noteq> tabId) (tabs st)
                   ! min (nat (findIndex (\<lambda>t. id_tab t = tabId) (tabs st)))
                         (length (filter (\<lambda>t. id_tab t \<noteq> tabId) (tabs st)) - 1))"
proof -
  define new where "new = filter (\<lambda>t. id_tab t \<noteq> tabId) (tabs st)"
  define k where "k = min (nat (findIndex (\<lambda>t. id_tab t = tabId) (tabs st))) (length new - 1)"
  have len: "0 < length new" using rem by (simp add: new_def)
  then have k: "k < length new" unfolding k_def by arith
  have d: "distinct (map id_tab new)"
    using dist by (simp add: new_def distinct_map_filter)
  have tabs': "tabs (closeTab now tabId st) = new"
    using rem by (simp add: closeTab_def closeTab_tabs_def new_def)
  have act': "activeTabId (closeTab now tabId st) = id_tab (new ! k)"
    using act closeTab_active_clamps [OF ex ne rem]
    by (simp add: closeTab_def new_def k_def)
  have shown: "activeTab (closeTab now tabId st) = Some (new ! k)"
    unfolding activeTab_def tabs' act'
    using find_distinct_nth [OF d k] by simp
  show ?thesis
    using act' shown unfolding new_def k_def by simp
qed

lemma sampleTabs_eval:
  "tabs sampleTabs = [blankTab (js ''1''), blankTab (js ''5''), blankTab (js ''7'')]"
  "activeTabId sampleTabs = js ''7''"
  by (simp_all add: sampleTabs_def addTab_def initialTabs_def blankTab_def toString_nat_step js_def)

theorem closeTab_active_tab_clamped_witness:
  "activeTabId sampleTabs = js ''7''
   \<and> map id_tab (tabs sampleTabs) = [js ''1'', js ''5'', js ''7'']
   \<and> activeTabId (closeTab 9 (js ''7'') sampleTabs) = js ''5''
   \<and> activeTab (closeTab 9 (js ''7'') sampleTabs) = Some (blankTab (js ''5''))"
proof -
  have ids: "map id_tab (tabs sampleTabs) = [js ''1'', js ''5'', js ''7'']"
    by (simp add: sampleTabs_eval blankTab_def)
  have ex: "\<exists>t \<in> set (tabs sampleTabs). id_tab t = js ''7''"
    by (simp add: sampleTabs_eval blankTab_def)
  have ne: "\<forall>t \<in> set (tabs sampleTabs). id_tab t \<noteq> []"
    by (simp add: sampleTabs_eval blankTab_def js_def)
  have dist: "distinct (map id_tab (tabs sampleTabs))"
    by (simp add: ids js_def)
  have new: "filter (\<lambda>t. id_tab t \<noteq> js ''7'') (tabs sampleTabs)
               = [blankTab (js ''1''), blankTab (js ''5'')]"
    by (simp add: sampleTabs_eval blankTab_def js_def)
  have idx: "findIndex (\<lambda>t. id_tab t = js ''7'') (tabs sampleTabs) = 2"
    by (simp add: sampleTabs_eval blankTab_def js_def)
  have rem: "filter (\<lambda>t. id_tab t \<noteq> js ''7'') (tabs sampleTabs) \<noteq> []"
    by (simp add: new)
  from closeTab_active_tab_clamped [OF sampleTabs_eval(2) ex ne dist rem, of 9]
  have "activeTabId (closeTab 9 (js ''7'') sampleTabs) = id_tab (blankTab (js ''5''))
        \<and> activeTab (closeTab 9 (js ''7'') sampleTabs) = Some (blankTab (js ''5''))"
    by (simp add: new idx)
  then show ?thesis
    using ids sampleTabs_eval(2) by (simp add: blankTab_def)
qed

text \<open>
  Where no tab remains, the fresh tab is shown only through the fallback to the first
  tab, and a navigation, which goes by \<open>activeTabId\<close>, updates no tab. Ids stay
  non-empty along every run, so the empty \<open>activeTabId\<close> names no tab.
\<close>

lemma closeTab_last_tab_shown:
  "activeTab (closeTab now (js ''1'') initialTabs) = Some (blankTab (toString_nat now))"
  by (simp add: activeTab_def closeTab_def closeTab_tabs_def closeTab_active_def initialTabs_def
      blankTab_def at_index_def toString_nat_nonempty)

lemma navigate_after_closing_last_tab:
  "navigateTo_start (js ''example.com'') (closeTab now (js ''1'') initialTabs)
     = Inr (closeTab now (js ''1'') initialTabs)"
proof -
  have link: "navigateTo_finalUrl (js ''example.com'') = Inr (js ''https://example.com'')"
    by (simp add: navigateTo_finalUrl_def js_def)
  have act: "activeTabId (closeTab now (js ''1'') initialTabs) = []"
    by (simp add: closeTab_def closeTab_active_def initialTabs_def blankTab_def)
  have tbs: "tabs (closeTab now (js ''1'') initialTabs) = [blankTab (toString_nat now)]"
    by (simp add: closeTab_def closeTab_tabs_def initialTabs_def blankTab_def)
  show ?thesis
    by (simp add: navigateTo_start_def link updateTab_def act tbs blankTab_def toString_nat_nonempty)
qed

lemma apply_tab_op_ids:
  "\<forall>t \<in> set (tabs st). id_tab t \<noteq> [] \<Longrightarrow> \<forall>t \<in> set (tabs (apply_tab_op op st)). id_tab t \<noteq> []"
  by (cases op)
     (auto simp: addTab_def closeTab_def closeTab_tabs_def blankTab_def Let_def toString_nat_nonempty)

lemma run_tab_ops_ids:
  "\<forall>t \<in> set (tabs st). id_tab t \<noteq> [] \<Longrightarrow> s \<in> set (run_tab_ops ops st)
     \<Longrightarrow> \<forall>t \<in> set (tabs s). id_tab t \<noteq> []"
proof (induction ops arbitrary: st)
  case Nil
  then show ?case by simp
next
  case (Cons op ops)
  from Cons.prems(1) have step: "\<forall>t \<in> set (tabs (apply_tab_op op st)). id_tab t \<noteq> []"
    by (rule apply_tab_op_ids)
  from Cons.prems(2) consider "s = apply_tab_op op st"
    | "s \<in> set (run_tab_ops ops (apply_tab_op op st))"
    by auto
  then show ?case
  proof cases
    case 1
    with step show ?thesis by simp
  next
    case 2
    with Cons.IH [OF step] show ?thesis by simp
  qed
qed

text \<open>
  Claim C2 says that closing the last remaining tab makes the freshly synthesized
  blank tab the active tab. The code, evaluated where it departs from that: closing
  the only tab of the initial state at clock value 1700000000000 leaves the one fresh
  tab, whose id is \<open>'1700000000000'\<close>, while \<open>activeTabId\<close> becomes the empty
  string, the id of no tab. The fresh tab is not the one \<open>activeTabId\<close> names.
\<close>

theorem C2_close_last_tab_active_id:
  "activeTabId (closeTab 1700000000000 (js ''1'') initialTabs) = []
   \<and> map id_tab (tabs (closeTab 1700000000000 (js ''1'') initialTabs)) = [js ''1700000000000'']"
  by (simp add: closeTab_def closeTab_tabs_def closeTab_active_def initialTabs_def
      blankTab_def toString_nat_step js_def)

section \<open>Properties of the NavigationResolver\<close>

lemmas encode_eval = emit_def uriUnescaped_def isLeadSurrogate_def isTrailSurrogate_def
  percentCodePoint_def percentByte_def utf8_def hexDigit_def pairCodePoint_def js_def

lemma emit_Inr_iff: "emit out rest = Inr q \<longleftrightarrow> (\<exists>r. rest = Inr r \<and> q = out @ r)"
  by (cases rest) (auto simp: emit_def)

lemma hexDigits_unescaped: "list_all (\<lambda>m. uriUnescaped (hexDigit m)) [0..<16]"
  by code_simp

lemma hexDigit_unescaped: "n < 16 \<Longrightarrow> uriUnescaped (hexDigit n)"
  using hexDigits_unescaped by (simp add: list_all_iff)

lemma utf8_bytes: "cp < 0x110000 \<Longrightarrow> b \<in> set (utf8 cp) \<Longrightarrow> b < 256"
  by (auto simp: utf8_def split: if_splits)

lemma percentByte_safe:
  "b < 256 \<Longrightarrow> c \<in> set (percentByte b) \<Longrightarrow> c \<noteq> 0x25 \<Longrightarrow> uriUnescaped c"
  by (auto simp: percentByte_def hexDigit_unescaped)

lemma percentCodePoint_safe:
  "cp < 0x110000 \<Longrightarrow> c \<in> set (percentCodePoint cp) \<Longrightarrow> c \<noteq> 0x25 \<Longrightarrow> uriUnescaped c"
  using percentByte_safe utf8_bytes by (fastforce simp: percentCodePoint_def)

lemma unat16_bound: "unat (c :: 16 word) < 0x110000"
proof -
  have "unat c < 2 ^ 16" using unsigned_less [of c, where 'a = nat] by simp
  then show ?thesis by simp
qed

lemma pairCodePoint_bound:
  "isLeadSurrogate hi \<Longrightarrow> isTrailSurrogate lo \<Longrightarrow> pairCodePoint hi lo < 0x110000"
  unfolding isLeadSurrogate_def isTrailSurrogate_def pairCodePoint_def word_le_nat_alt
  by simp arith

lemma percent_unit_safe:
  "c \<in> set (percentCodePoint (unat (a :: 16 word))) \<Longrightarrow> c \<noteq> 0x25 \<Longrightarrow> uriUnescaped c"
  using percentCodePoint_safe [OF unat16_bound] .

lemma percent_pair_safe:
  "isLeadSurrogate hi \<Longrightarrow> isTrailSurrogate lo
     \<Longrightarrow> c \<in> set (percentCodePoint (pairCodePoint hi lo)) \<Longrightarrow> c \<noteq> 0x25 \<Longrightarrow> uriUnescaped c"
  using percentCodePoint_safe [OF pairCodePoint_bound] .

text \<open>What \<open>encodeURIComponent\<close> returns holds only unescaped characters and \<open>%\<close>.\<close>

lemma encodeURIComponent_safe:
  "encodeURIComponent s = Inr q \<Longrightarrow> c \<in> set q \<Longrightarrow> uriUnescaped c \<or> c = 0x25"
proof (induction s arbitrary: q rule: encodeURIComponent.induct)
  case 1
  then show ?case by simp
next
  case (2 a)
  then show ?case
    by (auto split: if_splits dest: percent_unit_safe)
next
  case (3 a d ds)
  then show ?case
    by (auto split: if_splits simp: emit_Inr_iff dest: percent_unit_safe percent_pair_safe)
qed

text \<open>It raises only on a surrogate, and leaves a string of unescaped characters as it is.\<close>

lemma encodeURIComponent_total:
  "\<forall>c \<in> set s. \<not> isLeadSurrogate c \<and> \<not> isTrailSurrogate c \<Longrightarrow> \<exists>q. encodeURIComponent s = Inr q"
  by (induction s rule: encodeURIComponent.induct) (auto simp: emit_def)

lemma encodeURIComponent_unescaped:
  "\<forall>c \<in> set s. uriUnescaped c \<Longrightarrow> encodeURIComponent s = Inr s"
  by (induction s rule: encodeURIComponent.induct) (auto simp: emit_def)

lemma finalUrl_openai:
  "navigateTo_finalUrl (js ''openai'') = Inr (js ''https://duckduckgo.com/?q=openai'')"
  by (simp add: navigateTo_finalUrl_def encode_eval)

lemma finalUrl_example_com:
  "navigateTo_finalUrl (js ''example.com'') = Inr (js ''https://example.com'')"
  by (simp add: navigateTo_finalUrl_def js_def)

lemma finalUrl_http_x_com:
  "navigateTo_finalUrl (js ''http://x.com'') = Inr (js ''http://x.com'')"
  by (simp add: navigateTo_finalUrl_def js_def)

text \<open>
  Claim C3, as stated, fails on the code. The input \<open>ftp://example.com\<close> has an
  explicit scheme, a dot and no space, and is not returned unchanged: it gets
  \<open>https://\<close> in front. And an input that is classified as a search and holds a lone
  surrogate has no percent-encoding: \<open>navigateTo\<close> raises \<open>URIError\<close>.
\<close>

theorem C3_explicit_scheme_counterexample:
  "spec_hasExplicitScheme (js ''ftp://example.com'')
   \<and> includes_str (js ''ftp://example.com'') (js ''.'')
   \<and> \<not> includes_str (js ''ftp://example.com'') (js '' '')
   \<and> navigateTo_finalUrl (js ''ftp://example.com'') = Inr (js ''https://ftp://example.com'')
   \<and> navigateTo_finalUrl (js ''ftp://example.com'') \<noteq> Inr (js ''ftp://example.com'')
   \<and> \<not> includes_str [0xD83D] (js ''.'')
   \<and> navigateTo_finalUrl [0xD83D] = Inl URIError"
proof (intro conjI)
  show "spec_hasExplicitScheme (js ''ftp://example.com'')"
    by (simp add: spec_hasExplicitScheme_def isSchemeChar_def isAlpha_def js_def)
  show "includes_str (js ''ftp://example.com'') (js ''.'')"
    by (simp add: js_def)
  show "\<not> includes_str (js ''ftp://example.com'') (js '' '')"
    by (simp add: js_def)
  show "navigateTo_finalUrl (js ''ftp://example.com'') = Inr (js ''https://ftp://example.com'')"
    by (simp add: navigateTo_finalUrl_def js_def)
  show "navigateTo_finalUrl (js ''ftp://example.com'') \<noteq> Inr (js ''ftp://example.com'')"
    by (simp add: navigateTo_finalUrl_def js_def)
  show "\<not> includes_str [0xD83D] (js ''.'')"
    by (simp add: js_def)
  show "navigateTo_finalUrl [0xD83D] = Inl URIError"
    by (simp add: navigateTo_finalUrl_def encode_eval)
qed

text \<open>
  Claim C3, amended. An input with no dot, or with a space, becomes the search URL
  \<open>https://duckduckgo.com/?q=\<close> followed by \<open>encodeURIComponent\<close> of the raw input,
  which holds only unescaped characters and \<open>%\<close>; when \<open>encodeURIComponent\<close> raises
  (a lone surrogate), so does \<open>navigateTo\<close>, and it raises on no input free of
  surrogates. Any other input that does not start with exactly \<open>http://\<close> or
  \<open>https://\<close> gets \<open>https://\<close> in front, whatever other scheme it may carry; one
  that does is returned unchanged. The three examples of the claim hold.
\<close>

theorem C3_navigateTo_finalUrl_amended:
  "(\<not> includes_str input (js ''.'') \<or> includes_str input (js '' '') \<longrightarrow>
      (case encodeURIComponent input of
         Inr q \<Rightarrow> navigateTo_finalUrl input = Inr (js ''https://duckduckgo.com/?q='' @ q)
                   \<and> (\<forall>c \<in> set q. uriUnescaped c \<or> c = 0x25)
       | Inl e \<Rightarrow> navigateTo_finalUrl input = Inl e))
   \<and> ((\<forall>c \<in> set input. \<not> isLeadSurrogate c \<and> \<not> isTrailSurrogate c) \<longrightarrow>
        (\<exists>finalUrl. navigateTo_finalUrl input = Inr finalUrl))
   \<and> (includes_str input (js ''.'') \<and> \<not> includes_str input (js '' '')
        \<and> \<not> startsWith input (js ''http://'') \<and> \<not> startsWith input (js ''https://'') \<longrightarrow>
        navigateTo_finalUrl input = Inr (js ''https://'' @ input))
   \<and> (includes_str input (js ''.'') \<and> \<not> includes_str input (js '' '')
        \<and> (startsWith input (js ''http://'') \<or> startsWith input (js ''https://'')) \<longrightarrow>
        navigateTo_finalUrl input = Inr input)
   \<and> navigateTo_finalUrl (js ''openai'') = Inr (js ''https://duckduckgo.com/?q=openai'')
   \<and> navigateTo_finalUrl (js ''example.com'') = Inr (js ''https://example.com'')
   \<and> navigateTo_finalUrl (js ''http://x.com'') = Inr (js ''http://x.com'')"
proof (intro conjI impI)
  assume search: "\<not> includes_str input (js ''.'') \<or> includes_str input (js '' '')"
  show "case encodeURIComponent input of
         Inr q \<Rightarrow> navigateTo_finalUrl input = Inr (js ''https://duckduckgo.com/?q='' @ q)
                   \<and> (\<forall>c \<in> set q. uriUnescaped c \<or> c = 0x25)
       | Inl e \<Rightarrow> navigateTo_finalUrl input = Inl e"
  proof (cases "encodeURIComponent input")
    case (Inl e)
    with search show ?thesis by (auto simp: navigateTo_finalUrl_def emit_def)
  next
    case (Inr q)
    with search have "navigateTo_finalUrl input = Inr (js ''https://duckduckgo.com/?q='' @ q)"
      by (auto simp: navigateTo_finalUrl_def emit_def)
    moreover have "\<forall>c \<in> set q. uriUnescaped c \<or> c = 0x25"
      using encodeURIComponent_safe [OF Inr] by blast
    ultimately show ?thesis using Inr by simp
  qed
next
  assume "\<forall>c \<in> set input. \<not> isLeadSurrogate c \<and> \<not> isTrailSurrogate c"
  then obtain q where "encodeURIComponent input = Inr q"
    using encodeURIComponent_total by blast
  then show "\<exists>finalUrl. navigateTo_finalUrl input = Inr finalUrl"
    by (simp add: navigateTo_finalUrl_def emit_def)
next
  assume "includes_str input (js ''.'') \<and> \<not> includes_str input (js '' '')
        \<and> \<not> startsWith input (js ''http://'') \<and> \<not> startsWith input (js ''https://'')"
  then show "navigateTo_finalUrl input = Inr (js ''https://'' @ input)"
    by (simp add: navigateTo_finalUrl_def)
next
  assume "includes_str input (js ''.'') \<and> \<not> includes_str input (js '' '')
        \<and> (startsWith input (js ''http://'') \<or> startsWith input (js ''https://''))"
  then show "navigateTo_finalUrl input = Inr input"
    by (auto simp: navigateTo_finalUrl_def)
qed (rule finalUrl_openai finalUrl_example_com finalUrl_http_x_com)+

theorem C3_navigateTo_finalUrl_amended_witness:
  "includes_str (js ''hello world'') (js '' '')
   \<and> navigateTo_finalUrl (js ''hello world'') = Inr (js ''https://duckduckgo.com/?q=hello%20world'')
   \<and> includes_str (js ''site.org/a'') (js ''.'') \<and> \<not> includes_str (js ''site.org/a'') (js '' '')
   \<and> \<not> startsWith (js ''site.org/a'') (js ''http://'')
   \<and> \<not> startsWith (js ''site.org/a'') (js ''https://'')
   \<and> navigateTo_finalUrl (js ''site.org/a'') = Inr (js ''https://site.org/a'')
   \<and> startsWith (js ''https://a.io'') (js ''https://'')
   \<and> navigateTo_finalUrl (js ''https://a.io'') = Inr (js ''https://a.io'')"
proof -
  have sp: "includes_str (js ''hello world'') (js '' '')"
    by (simp add: js_def)
  have enc: "encodeURIComponent (js ''hello world'') = Inr (js ''hello%20world'')"
    by (simp add: encode_eval)
  from C3_navigateTo_finalUrl_amended [of "js ''hello world''"] sp
  have "case encodeURIComponent (js ''hello world'') of
         Inr q \<Rightarrow> navigateTo_finalUrl (js ''hello world'') = Inr (js ''https://duckduckgo.com/?q='' @ q)
                   \<and> (\<forall>c \<in> set q. uriUnescaped c \<or> c = 0x25)
       | Inl e \<Rightarrow> navigateTo_finalUrl (js ''hello world'') = Inl e"
    by blast
  then have "navigateTo_finalUrl (js ''hello world'')
               = Inr (js ''https://duckduckgo.com/?q='' @ js ''hello%20world'')"
    by (simp add: enc)
  then have r1: "navigateTo_finalUrl (js ''hello world'')
               = Inr (js ''https://duckduckgo.com/?q=hello%20world'')"
    by (simp add: js_def)
  have h2: "includes_str (js ''site.org/a'') (js ''.'') \<and> \<not> includes_str (js ''site.org/a'') (js '' '')
        \<and> \<not> startsWith (js ''site.org/a'') (js ''http://'')
        \<and> \<not> startsWith (js ''site.org/a'') (js ''https://'')"
    by (simp add: js_def)
  from C3_navigateTo_finalUrl_amended [of "js ''site.org/a''"] h2
  have "navigateTo_finalUrl (js ''site.org/a'') = Inr (js ''https://'' @ js ''site.org/a'')"
    by blast
  then have r2: "navigateTo_finalUrl (js ''site.org/a'') = Inr (js ''https://site.org/a'')"
    by (simp add: js_def)
  have h3: "includes_str (js ''https://a.io'') (js ''.'') \<and> \<not> includes_str (js ''https://a.io'') (js '' '')
        \<and> (startsWith (js ''https://a.io'') (js ''http://'') \<or> startsWith (js ''https://a.io'') (js ''https://''))"
    by (simp add: js_def)
  from C3_navigateTo_finalUrl_amended [of "js ''https://a.io''"] h3
  have r3: "navigateTo_finalUrl (js ''https://a.io'') = Inr (js ''https://a.io'')"
    by blast
  from h3 have s3: "startsWith (js ''https://a.io'') (js ''https://'')"
    by (simp add: js_def)
  show ?thesis using sp r1 h2 r2 s3 r3 by blast
qed

section \<open>Properties of the IdentityController\<close>

lemma promiseAll3_Inl: "isl fp \<or> isl geo \<or> isl ua \<Longrightarrow> isl (promiseAll3 fp geo ua)"
  by (auto simp: promiseAll3_def isl_def split: sum.splits)

text \<open>
  Claim C4. After a successful \<open>regenerate_identity\<close> the identity id is the session id
  of the returned fingerprint, whatever the three fetches do; if any one of the three
  fetches is rejected, the displayed details are exactly the previous ones; and when
  all three succeed the three details are replaced together.
\<close>

theorem C4_regenerate_all_or_nothing:
  "identityId (privacyStatus (regenerateIdentity (Inr identity) fp geo ua st))
     = sessionId (identity_fingerprint identity)
   \<and> (isl fp \<or> isl geo \<or> isl ua \<longrightarrow>
        privacyDetails (regenerateIdentity (Inr identity) fp geo ua st) = privacyDetails st)
   \<and> (fp = Inr f \<and> geo = Inr g \<and> ua = Inr u \<longrightarrow>
        privacyDetails (regenerateIdentity (Inr identity) fp geo ua st)
          = \<lparr>fingerprint = Some f, geolocation = Some g, userAgent = Some u\<rparr>)"
proof (intro conjI impI)
  show "identityId (privacyStatus (regenerateIdentity (Inr identity) fp geo ua st))
     = sessionId (identity_fingerprint identity)"
    by (simp add: regenerateIdentity_def Let_def split: sum.splits prod.splits)
next
  assume "isl fp \<or> isl geo \<or> isl ua"
  then have "isl (promiseAll3 fp geo ua)" by (rule promiseAll3_Inl)
  then show "privacyDetails (regenerateIdentity (Inr identity) fp geo ua st) = privacyDetails st"
    by (auto simp: regenerateIdentity_def Let_def isl_def)
next
  assume "fp = Inr f \<and> geo = Inr g \<and> ua = Inr u"
  then show "privacyDetails (regenerateIdentity (Inr identity) fp geo ua st)
          = \<lparr>fingerprint = Some f, geolocation = Some g, userAgent = Some u\<rparr>"
    by (simp add: regenerateIdentity_def promiseAll3_def Let_def)
qed

theorem C4_regenerate_all_or_nothing_witness:
  "isl (Inl (Rejected (js ''offline'')) :: error + nat)
   \<and> identityId (privacyStatus (regenerateIdentity (Inr sampleIdentity)
        (Inr (sampleFingerprint (js ''new''))) (Inl (Rejected (js ''offline''))) (Inr 2)
        sampleIdentityState)) = js ''new''
   \<and> privacyDetails (regenerateIdentity (Inr sampleIdentity)
        (Inr (sampleFingerprint (js ''new''))) (Inl (Rejected (js ''offline''))) (Inr 2)
        sampleIdentityState)
       = \<lparr>fingerprint = Some (sampleFingerprint (js ''old'')), geolocation = Some 5,
          userAgent = Some 6\<rparr>
   \<and> privacyDetails (regenerateIdentity (Inr sampleIdentity)
        (Inr (sampleFingerprint (js ''new''))) (Inr 1) (Inr 2) sampleIdentityState)
       = \<lparr>fingerprint = Some (sampleFingerprint (js ''new'')), geolocation = Some 1,
          userAgent = Some 2\<rparr>"
proof -
  note fails = C4_regenerate_all_or_nothing
    [of sampleIdentity "Inr (sampleFingerprint (js ''new''))" "Inl (Rejected (js ''offline''))"
        "Inr 2" sampleIdentityState]
  note succeeds = C4_regenerate_all_or_nothing
    [of sampleIdentity "Inr (sampleFingerprint (js ''new''))" "Inr 1" "Inr 2"
        sampleIdentityState "sampleFingerprint (js ''new'')" 1 2]
  have sid: "sessionId (identity_fingerprint sampleIdentity) = js ''new''"
    by (simp add: sampleIdentity_def sampleFingerprint_def)
  have det: "privacyDetails sampleIdentityState
       = \<lparr>fingerprint = Some (sampleFingerprint (js ''old'')), geolocation = Some 5,
          userAgent = Some 6\<rparr>"
    by (simp add: sampleIdentityState_def)
  show ?thesis
    using fails succeeds by (simp add: sid det)
qed

section \<open>Properties of the AuthGate and the settings toggles\<close>

lemma loadSettings_auth:
  "isAuthenticated (loadSettings be st) = isAuthenticated st"
  "settingsPassword (loadSettings be st) = settingsPassword st"
  "settingsPasswordError (loadSettings be st) = settingsPasswordError st"
  "isLogsAuthenticated (loadSettings be st) = isLogsAuthenticated st"
  "logsPassword (loadSettings be st) = logsPassword st"
  "logsPasswordError (loadSettings be st) = logsPasswordError st"
  by (simp_all add: loadSettings_def split: sum.splits)

lemma loadData_auth:
  "isAuthenticated (loadData fb be st) = isAuthenticated st"
  "settingsPassword (loadData fb be st) = settingsPassword st"
  "settingsPasswordError (loadData fb be st) = settingsPasswordError st"
  "isLogsAuthenticated (loadData fb be st) = isLogsAuthenticated st"
  "logsPassword (loadData fb be st) = logsPassword st"
  "logsPasswordError (loadData fb be st) = logsPasswordError st"
  by (simp_all add: loadData_def split: sum.splits)

lemma generateSecurityLogs_auth:
  "isAuthenticated (generateSecurityLogs fmt demo be st) = isAuthenticated st"
  "settingsPassword (generateSecurityLogs fmt demo be st) = settingsPassword st"
  "settingsPasswordError (generateSecurityLogs fmt demo be st) = settingsPasswordError st"
  "isLogsAuthenticated (generateSecurityLogs fmt demo be st) = isLogsAuthenticated st"
  "logsPassword (generateSecurityLogs fmt demo be st) = logsPassword st"
  "logsPasswordError (generateSecurityLogs fmt demo be st) = logsPasswordError st"
  by (simp_all add: generateSecurityLogs_def split: sum.splits option.splits)

lemmas loads_auth = loadSettings_auth loadData_auth generateSecurityLogs_auth

lemma handleSettingsLogin_logs_domain:
  "isLogsAuthenticated (handleSettingsLogin fb fmt demo be st) = isLogsAuthenticated st"
  "logsPassword (handleSettingsLogin fb fmt demo be st) = logsPassword st"
  "logsPasswordError (handleSettingsLogin fb fmt demo be st) = logsPasswordError st"
  by (simp_all add: handleSettingsLogin_def loads_auth split: sum.splits)

lemma handleSettingsLogin_success:
  "unlock_settings be = Inr True \<Longrightarrow> isAuthenticated (handleSettingsLogin fb fmt demo be st)"
  "unlock_settings be = Inr True \<Longrightarrow> settingsPasswordError (handleSettingsLogin fb fmt demo be st) = []"
  by (simp_all add: handleSettingsLogin_def loads_auth)

lemma handleLogsLogin_settings_domain:
  "isAuthenticated (handleLogsLogin be st) = isAuthenticated st"
  "settingsPassword (handleLogsLogin be st) = settingsPassword st"
  "settingsPasswordError (handleLogsLogin be st) = settingsPasswordError st"
  by (simp_all add: handleLogsLogin_def Let_def split: sum.splits)

lemma handleLogsLogin_success:
  "unlock_logs be = Inr True \<Longrightarrow> isLogsAuthenticated (handleLogsLogin be st)"
  "unlock_logs be = Inr True \<Longrightarrow> logsPasswordError (handleLogsLogin be st) = []"
  by (simp_all add: handleLogsLogin_def Let_def split: sum.splits)

text \<open>
  Claim C5. A successful settings unlock sets the settings domain to unlocked, and
  whatever the backend answers, the settings login leaves the logs domain (its lock,
  password and error message) as it was; the same holds with the two domains
  exchanged. When the panel opens, both domains are locked and both passwords and
  both error messages are empty, whatever the state was before.
\<close>

theorem C5_auth_domains_independent:
  "(unlock_settings be = Inr True \<longrightarrow> isAuthenticated (handleSettingsLogin fb fmt demo be st))
   \<and> isLogsAuthenticated (handleSettingsLogin fb fmt demo be st) = isLogsAuthenticated st
   \<and> logsPassword (handleSettingsLogin fb fmt demo be st) = logsPassword st
   \<and> logsPasswordError (handleSettingsLogin fb fmt demo be st) = logsPasswordError st
   \<and> (unlock_logs be = Inr True \<longrightarrow> isLogsAuthenticated (handleLogsLogin be st))
   \<and> isAuthenticated (handleLogsLogin be st) = isAuthenticated st
   \<and> settingsPassword (handleLogsLogin be st) = settingsPassword st
   \<and> settingsPasswordError (handleLogsLogin be st) = settingsPasswordError st
   \<and> \<not> isAuthenticated (onPanelOpen st) \<and> \<not> isLogsAuthenticated (onPanelOpen st)
   \<and> settingsPassword (onPanelOpen st) = [] \<and> logsPassword (onPanelOpen st) = []
   \<and> settingsPasswordError (onPanelOpen st) = [] \<and> logsPasswordError (onPanelOpen st) = []"
  by (simp add: handleSettingsLogin_logs_domain handleSettingsLogin_success
      handleLogsLogin_settings_domain handleLogsLogin_success onPanelOpen_def)

theorem C5_auth_domains_independent_witness:
  "unlock_settings sampleBackend = Inr True
   \<and> isAuthenticated (handleSettingsLogin [] (\<lambda>i r. r) [] sampleBackend samplePanel)
   \<and> \<not> isLogsAuthenticated (handleSettingsLogin [] (\<lambda>i r. r) [] sampleBackend samplePanel)
   \<and> logsPasswordError (handleSettingsLogin [] (\<lambda>i r. r) [] sampleBackend samplePanel)
       = js ''Incorrect password''
   \<and> unlock_logs sampleBackend = Inr True
   \<and> isLogsAuthenticated (handleLogsLogin sampleBackend samplePanel)
   \<and> \<not> isAuthenticated (handleLogsLogin sampleBackend samplePanel)
   \<and> \<not> isAuthenticated
         (onPanelOpen (handleSettingsLogin [] (\<lambda>i r. r) [] sampleBackend samplePanel))
   \<and> \<not> isLogsAuthenticated (onPanelOpen (handleLogsLogin sampleBackend samplePanel))"
proof -
  note login = C5_auth_domains_independent
    [of sampleBackend "[]" "\<lambda>i r. r" "[]" samplePanel]
  note reopen1 = C5_auth_domains_independent
    [of sampleBackend "[]" "\<lambda>i r. r" "[]"
        "handleSettingsLogin [] (\<lambda>i r. r) [] sampleBackend samplePanel"]
  note reopen2 = C5_auth_domains_independent
    [of sampleBackend "[]" "\<lambda>i r. r" "[]" "handleLogsLogin sampleBackend samplePanel"]
  have be: "unlock_settings sampleBackend = Inr True" "unlock_logs sampleBackend = Inr True"
    by (simp_all add: sampleBackend_def)
  have st: "\<not> isAuthenticated samplePanel" "\<not> isLogsAuthenticated samplePanel"
    "logsPasswordError samplePanel = js ''Incorrect password''"
    by (simp_all add: samplePanel_def)
  show ?thesis
    using login reopen1 reopen2 be st by simp
qed

text \<open>
  Claim C6. For every setting key, the click shows the negation of the value before the
  click; if \<open>set_setting\<close> is rejected, the value shown for the key is again the value
  before the click (and so differs from the optimistic one), and the settings as a
  whole are those before the click. The rollback writes the value before the click
  whatever the settings have become in the meantime. A persisted toggle keeps the
  negated value.
\<close>

theorem C6_toggle_rollback:
  "settings (toggleSetting_apply k (toggleSetting_newValue k st) st) k = (\<not> settings st k)
   \<and> settings (toggleSetting k (Inl e) st) k = settings st k
   \<and> settings (toggleSetting k (Inl e) st) k
        \<noteq> settings (toggleSetting_apply k (toggleSetting_newValue k st) st) k
   \<and> settings (toggleSetting k (Inl e) st) = settings st
   \<and> settings (toggleSetting_revert k (toggleSetting_newValue k st) later) k = settings st k
   \<and> settings (toggleSetting k (Inr ()) st) k = (\<not> settings st k)"
  by (simp add: toggleSetting_def toggleSetting_apply_def toggleSetting_revert_def
      toggleSetting_newValue_def Let_def)

theorem C6_toggle_rollback_witness:
  "settings samplePanel httpsOnly
   \<and> \<not> settings (toggleSetting_apply httpsOnly (toggleSetting_newValue httpsOnly samplePanel)
                   samplePanel) httpsOnly
   \<and> settings (toggleSetting httpsOnly (Inl (Rejected (js ''disk full''))) samplePanel) httpsOnly
   \<and> \<not> settings (toggleSetting httpsOnly (Inr ()) samplePanel) httpsOnly"
proof -
  have v: "settings samplePanel httpsOnly"
    by (simp add: samplePanel_def defaultSettings_def)
  show ?thesis
    using C6_toggle_rollback [of httpsOnly samplePanel "Rejected (js ''disk full'')" samplePanel] v
    by simp
qed

section \<open>Properties of the shell session\<close>

lemma handleSshExecute_prefix: "prefix (sshOutput st) (sshOutput (handleSshExecute r st))"
  by (simp add: handleSshExecute_def Let_def split: sum.splits option.splits)

lemma handleSshDisconnect_prefix: "prefix (sshOutput st) (sshOutput (handleSshDisconnect d st))"
  by (simp add: handleSshDisconnect_def split: sum.splits)

lemma handleSshConnect_settle_prefix:
  "prefix (sshOutput st) (sshOutput (handleSshConnect_settle c st))"
  by (simp add: handleSshConnect_settle_def split: sum.splits)

lemma sampleTools_failed_connect:
  "sshOutput (handleSshConnect (Inl (Rejected (js ''refused''))) sampleTools)
     = [js ''Connecting to h...'', js ''Error: refused'']"
  by (simp add: handleSshConnect_def handleSshConnect_begin_def handleSshConnect_settle_def
      sampleTools_def initialTools_def errorText_def js_def)

lemma sampleTools_second_connect:
  "sshOutput (handleSshConnect (Inr (js ''c1''))
               (handleSshConnect (Inl (Rejected (js ''refused''))) sampleTools))
     = [js ''Connecting to h...'', js ''Connected successfully!'', []]"
  by (simp add: handleSshConnect_def handleSshConnect_begin_def handleSshConnect_settle_def
      sampleTools_def initialTools_def js_def)

text \<open>
  Claim C7, as stated, fails on the code: \<open>handleSshConnect\<close> does not append its
  "connecting" line, it replaces the log by it. After a rejected connect the log ends
  with the error line; the next connect leaves a log that no longer holds that line,
  so the earlier log is not a prefix of the later one.
\<close>

theorem C7_connect_resets_log_counterexample:
  "sshOutput (handleSshConnect (Inl (Rejected (js ''refused''))) sampleTools)
     = [js ''Connecting to h...'', js ''Error: refused'']
   \<and> sshOutput (handleSshConnect (Inr (js ''c1''))
                  (handleSshConnect (Inl (Rejected (js ''refused''))) sampleTools))
     = [js ''Connecting to h...'', js ''Connected successfully!'', []]
   \<and> \<not> prefix (sshOutput (handleSshConnect (Inl (Rejected (js ''refused''))) sampleTools))
               (sshOutput (handleSshConnect (Inr (js ''c1''))
                  (handleSshConnect (Inl (Rejected (js ''refused''))) sampleTools)))
   \<and> js ''Error: refused''
        \<notin> set (sshOutput (handleSshConnect (Inr (js ''c1''))
                  (handleSshConnect (Inl (Rejected (js ''refused''))) sampleTools)))"
  unfolding sampleTools_failed_connect sampleTools_second_connect
  by (simp add: js_def)

text \<open>
  Claim C7, amended. \<open>execute\<close> and \<open>disconnect\<close> only append: the log before is a
  prefix of the log after, whatever the outcome. \<open>connect\<close> starts the log afresh
  with its "connecting" line, dropping what was recorded before, and from then on only
  appends: the success line and an empty line on success, the error line on failure.
\<close>

theorem C7_log_append_only_amended:
  "prefix (sshOutput st) (sshOutput (handleSshExecute r st))
   \<and> prefix (sshOutput st) (sshOutput (handleSshDisconnect d st))
   \<and> sshOutput (handleSshConnect_begin st) = [js ''Connecting to '' @ sshHost st @ js ''...'']
   \<and> prefix (sshOutput st) (sshOutput (handleSshConnect_settle c st))
   \<and> sshOutput (handleSshConnect (Inr cid) st)
        = [js ''Connecting to '' @ sshHost st @ js ''...'', js ''Connected successfully!'', []]
   \<and> sshOutput (handleSshConnect (Inl e) st)
        = [js ''Connecting to '' @ sshHost st @ js ''...'', js ''Error: '' @ errorText e]"
proof (intro conjI)
  show "prefix (sshOutput st) (sshOutput (handleSshExecute r st))"
    by (rule handleSshExecute_prefix)
  show "prefix (sshOutput st) (sshOutput (handleSshDisconnect d st))"
    by (rule handleSshDisconnect_prefix)
  show "sshOutput (handleSshConnect_begin st) = [js ''Connecting to '' @ sshHost st @ js ''...'']"
    by (simp add: handleSshConnect_begin_def)
  show "prefix (sshOutput st) (sshOutput (handleSshConnect_settle c st))"
    by (rule handleSshConnect_settle_prefix)
  show "sshOutput (handleSshConnect (Inr cid) st)
        = [js ''Connecting to '' @ sshHost st @ js ''...'', js ''Connected successfully!'', []]"
    by (simp add: handleSshConnect_def handleSshConnect_begin_def handleSshConnect_settle_def)
  show "sshOutput (handleSshConnect (Inl e) st)
        = [js ''Connecting to '' @ sshHost st @ js ''...'', js ''Error: '' @ errorText e]"
    by (simp add: handleSshConnect_def handleSshConnect_begin_def handleSshConnect_settle_def)
qed

lemma sampleTools_execute:
  "sshOutput (handleSshExecute (Inr \<lparr>stdout = Some (js ''a.txt''), stderr = None\<rparr>) sampleTools)
     = [js ''old'', js ''$ ls'', js ''a.txt'']"
  by (simp add: handleSshExecute_def sampleTools_def initialTools_def trim_def isWhiteSpace_def
      js_def Let_def)

theorem C7_log_append_only_amended_witness:
  "sshOutput sampleTools = [js ''old'']
   \<and> prefix [js ''old''] [js ''old'', js ''$ ls'', js ''a.txt'']
   \<and> sshOutput (handleSshExecute (Inr \<lparr>stdout = Some (js ''a.txt''), stderr = None\<rparr>) sampleTools)
        = [js ''old'', js ''$ ls'', js ''a.txt'']
   \<and> sshOutput (handleSshConnect (Inr (js ''c1'')) sampleTools)
        = [js ''Connecting to h...'', js ''Connected successfully!'', []]"
proof -
  note inst = C7_log_append_only_amended
    [of sampleTools "Inr \<lparr>stdout = Some (js ''a.txt''), stderr = None\<rparr>" "Inr ()" "Inr (js ''c1'')"
        "js ''c1''" "Rejected (js ''refused'')"]
  have old: "sshOutput sampleTools = [js ''old'']"
    by (simp add: sampleTools_def)
  have host: "js ''Connecting to '' @ sshHost sampleTools @ js ''...'' = js ''Connecting to h...''"
    by (simp add: sampleTools_def js_def)
  from inst have "prefix (sshOutput sampleTools)
      (sshOutput (handleSshExecute (Inr \<lparr>stdout = Some (js ''a.txt''), stderr = None\<rparr>) sampleTools))"
    by blast
  then have p: "prefix [js ''old''] [js ''old'', js ''$ ls'', js ''a.txt'']"
    by (simp add: old sampleTools_execute)
  from inst have "sshOutput (handleSshConnect (Inr (js ''c1'')) sampleTools)
        = [js ''Connecting to '' @ sshHost sampleTools @ js ''...'', js ''Connected successfully!'', []]"
    by blast
  then have c: "sshOutput (handleSshConnect (Inr (js ''c1'')) sampleTools)
        = [js ''Connecting to h...'', js ''Connected successfully!'', []]"
    by (simp add: host)
  show ?thesis using old p c sampleTools_execute by simp
qed

section \<open>Properties of the port list\<close>



lemmas parseInt_eval = parseInt_def trimStart_def isWhiteSpace_def isRadixDigit_def
  digitValue_def radixValue_def js_def Let_def


text \<open>\<open>parseInt\<close> reads a leading number and ignores what follows it.\<close>

lemma parseInt_prefix_examples:
  "parseInt (js ''80abc'') = Num 80" "parseInt (js ''0x1F'') = Num 31"
  "parseInt (js ''-5'') = Num (-5)" "parseInt (js ''1e3'') = Num 1" "parseInt [] = NaN"
  by (simp_all add: parseInt_eval)

lemma digits_checked:
  "list_all (\<lambda>n. \<not> isWhiteSpace (of_nat n) \<and> (of_nat n :: 16 word) \<noteq> 0x2B
                 \<and> (of_nat n :: 16 word) \<noteq> 0x2D \<and> isRadixDigit 10 (of_nat n)) [48..<58]"
  by code_simp

lemma digit_props:
  assumes "0x30 \<le> c \<and> c \<le> (0x39 :: 16 word)"
  shows "\<not> isWhiteSpace c" "c \<noteq> 0x2B" "c \<noteq> 0x2D" "isRadixDigit 10 c"
proof -
  from assms have "48 \<le> unat c \<and> unat c < 58"
    by (simp add: word_le_nat_alt)
  then have mem: "unat c \<in> set [48..<58]"
    unfolding set_upt atLeastLessThan_iff .
  have oc: "of_nat (unat c) = c" by simp
  note key = digits_checked [unfolded list_all_iff, rule_format, OF mem, unfolded oc]
  from key show "\<not> isWhiteSpace c" by (rule conjunct1)
  from key show "c \<noteq> 0x2B" by blast
  from key show "c \<noteq> 0x2D" by blast
  from key show "isRadixDigit 10 c" by blast
qed

lemma startsWith_two:
  "startsWith s [a, b] \<longleftrightarrow> (\<exists>rest. s = a # b # rest)"
  by (cases s; cases "tl s") auto

lemma digits_not_hex:
  assumes dig: "\<forall>c \<in> set s. 0x30 \<le> c \<and> c \<le> (0x39 :: 16 word)"
  shows "\<not> startsWith s (js ''0x'')" "\<not> startsWith s (js ''0X'')"
proof -
  show "\<not> startsWith s (js ''0x'')"
  proof
    assume "startsWith s (js ''0x'')"
    then obtain rest where "s = 0x30 # 0x78 # rest"
      by (auto simp: js_def startsWith_two)
    then have "(0x78 :: 16 word) \<in> set s" by simp
    with dig have "(0x78 :: 16 word) \<le> 0x39" by blast
    then show False by simp
  qed
  show "\<not> startsWith s (js ''0X'')"
  proof
    assume "startsWith s (js ''0X'')"
    then obtain rest where "s = 0x30 # 0x58 # rest"
      by (auto simp: js_def startsWith_two)
    then have "(0x58 :: 16 word) \<in> set s" by simp
    with dig have "(0x58 :: 16 word) \<le> 0x39" by blast
    then show False by simp
  qed
qed

text \<open>An entry of decimal digits parses to the number it writes.\<close>

lemma parseInt_decimal:
  assumes ne: "s \<noteq> []" and dig: "\<forall>c \<in> set s. 0x30 \<le> c \<and> c \<le> 0x39"
  shows "parseInt s = Num (int (radixValue 10 s))"
proof -
  from ne obtain c cs where s: "s = c # cs" by (cases s) auto
  have c: "0x30 \<le> c \<and> c \<le> 0x39" using dig s by simp
  have trimmed: "trimStart s = s"
    using digit_props(1) [OF c] by (simp add: trimStart_def s)
  note nohex = digits_not_hex [OF dig]
  have "\<forall>c \<in> set s. isRadixDigit 10 c"
    using dig digit_props(4) by blast
  then have all: "takeWhile (isRadixDigit 10) s = s"
    by simp
  have hd: "hd s \<noteq> 0x2B" "hd s \<noteq> 0x2D" using digit_props(2,3) [OF c] s by simp_all
  have "parseInt s =
          (if takeWhile (isRadixDigit 10) s = [] then NaN
           else Num (1 * int (radixValue 10 (takeWhile (isRadixDigit 10) s))))"
    unfolding parseInt_def Let_def trimmed using ne hd nohex by simp
  then show ?thesis
    unfolding all using ne by simp
qed

text \<open>An entry that starts with neither white space, a sign nor a decimal digit is
  not a number.\<close>

lemma parseInt_not_numeric:
  assumes "\<not> isWhiteSpace (hd s)" "hd s \<noteq> 0x2B" "hd s \<noteq> 0x2D" "\<not> isRadixDigit 10 (hd s)"
  shows "parseInt s = NaN"
proof (cases s)
  case Nil
  then show ?thesis by (simp add: parseInt_def trimStart_def)
next
  case (Cons c cs)
  with assms have c: "\<not> isWhiteSpace c" "c \<noteq> 0x2B" "c \<noteq> 0x2D" "\<not> isRadixDigit 10 c"
    by simp_all
  have "c \<noteq> 0x30"
    using c(4) by (auto simp: isRadixDigit_def digitValue_def)
  then have nohex: "\<not> startsWith s (js ''0x'')" "\<not> startsWith s (js ''0X'')"
    using Cons by (auto simp: js_def startsWith_two)
  have trimmed: "trimStart s = s" using c(1) Cons by (simp add: trimStart_def)
  have none: "takeWhile (isRadixDigit 10) s = []" using c(4) Cons by simp
  have hd: "hd s \<noteq> 0x2B" "hd s \<noteq> 0x2D" using c Cons by simp_all
  show ?thesis
    unfolding parseInt_def trimmed Let_def
    using hd nohex none by simp
qed




section \<open>Properties of the DownloadTracker\<close>

text \<open>
  Claim C8. A poll that brings a snapshot stores exactly the snapshot (each item
  mirrored) and counters computed from the snapshot alone: the same downloads and the
  same counters result from any two earlier states, and an earlier poll leaves no
  trace once a later one has brought its snapshot. The total is the number of items,
  and scanned, threats blocked, pending and in progress count the items of the
  snapshot in the matching state.
\<close>

theorem C8_poll_replaces_and_recomputes:
  "downloads (loadDownloads (Inr data) st) = map mirrorItem data
   \<and> stats (loadDownloads (Inr data) st) = computeStats data
   \<and> downloads (loadDownloads (Inr data) st) = downloads (loadDownloads (Inr data) st')
   \<and> stats (loadDownloads (Inr data) st) = stats (loadDownloads (Inr data) st')
   \<and> loadDownloads (Inr data) (loadDownloads (Inr earlier) st) = loadDownloads (Inr data) st
   \<and> total_downloads (stats (loadDownloads (Inr data) st)) = length data
   \<and> total_scanned (stats (loadDownloads (Inr data) st))
        = length (filter (\<lambda>d. state d = Some (js ''Completed'') \<or> state d = Some (js ''Safe'')) data)
   \<and> threats_blocked (stats (loadDownloads (Inr data) st)) = length (filter isThreat data)
   \<and> pending (stats (loadDownloads (Inr data) st))
        = length (filter (\<lambda>d. state d = Some (js ''Pending'')) data)
   \<and> in_progress (stats (loadDownloads (Inr data) st))
        = length (filter (\<lambda>d. state d = Some (js ''Downloading'')) data)"
proof -
  have mirror: "downloads (loadDownloads (Inr data) s) = map mirrorItem data" for s :: "'a DownloadState"
    by (simp add: loadDownloads_def)
  have counters: "stats (loadDownloads (Inr data) s) = computeStats data" for s :: "'a DownloadState"
    by (simp add: loadDownloads_def)
  have last_wins: "loadDownloads (Inr data) (loadDownloads (Inr earlier) st) = loadDownloads (Inr data) st"
    by (simp add: loadDownloads_def)
  show ?thesis
    unfolding mirror counters last_wins by (simp add: computeStats_def)
qed

lemma sample_states_differ:
  "js ''Pending'' \<noteq> js ''Completed''" "js ''Pending'' \<noteq> js ''Safe''"
  "js ''Completed'' \<noteq> js ''Pending''" "js ''Completed'' \<noteq> js ''Safe''"
  by (simp_all add: js_def)

theorem C8_poll_replaces_and_recomputes_witness:
  "pending (stats (loadDownloads
       (Inr [sampleItem (js ''a'') (js ''Pending''), sampleItem (js ''b'') (js ''Pending'')])
       initialDownloads)) = 2
   \<and> pending (stats (loadDownloads
       (Inr [sampleItem (js ''a'') (js ''Pending''), sampleItem (js ''b'') (js ''Completed'')])
       (loadDownloads
          (Inr [sampleItem (js ''a'') (js ''Pending''), sampleItem (js ''b'') (js ''Pending'')])
          initialDownloads))) = 1
   \<and> total_scanned (stats (loadDownloads
       (Inr [sampleItem (js ''a'') (js ''Pending''), sampleItem (js ''b'') (js ''Completed'')])
       (loadDownloads
          (Inr [sampleItem (js ''a'') (js ''Pending''), sampleItem (js ''b'') (js ''Pending'')])
          initialDownloads))) = 1"
proof -
  have st: "state (sampleItem i s) = Some s" for i s
    by (simp add: sampleItem_def)
  note first = C8_poll_replaces_and_recomputes
    [of "[sampleItem (js ''a'') (js ''Pending''), sampleItem (js ''b'') (js ''Pending'')]"
        "initialDownloads" "initialDownloads" "[]"]
  note second = C8_poll_replaces_and_recomputes
    [of "[sampleItem (js ''a'') (js ''Pending''), sampleItem (js ''b'') (js ''Completed'')]"
        "loadDownloads
          (Inr [sampleItem (js ''a'') (js ''Pending''), sampleItem (js ''b'') (js ''Pending'')])
          initialDownloads" "initialDownloads" "[]"]
  from first have "pending (stats (loadDownloads
       (Inr [sampleItem (js ''a'') (js ''Pending''), sampleItem (js ''b'') (js ''Pending'')])
       initialDownloads))
     = length (filter (\<lambda>d. state d = Some (js ''Pending''))
         [sampleItem (js ''a'') (js ''Pending''), sampleItem (js ''b'') (js ''Pending'')])"
    by blast
  then have r1: "pending (stats (loadDownloads
       (Inr [sampleItem (js ''a'') (js ''Pending''), sampleItem (js ''b'') (js ''Pending'')])
       initialDownloads)) = 2"
    by (simp add: st)
  from second have "pending (stats (loadDownloads
       (Inr [sampleItem (js ''a'') (js ''Pending''), sampleItem (js ''b'') (js ''Completed'')])
       (loadDownloads
          (Inr [sampleItem (js ''a'') (js ''Pending''), sampleItem (js ''b'') (js ''Pending'')])
          initialDownloads)))
     = length (filter (\<lambda>d. state d = Some (js ''Pending''))
         [sampleItem (js ''a'') (js ''Pending''), sampleItem (js ''b'') (js ''Completed'')])"
    by blast
  then have r2: "pending (stats (loadDownloads
       (Inr [sampleItem (js ''a'') (js ''Pending''), sampleItem (js ''b'') (js ''Completed'')])
       (loadDownloads
          (Inr [sampleItem (js ''a'') (js ''Pending''), sampleItem (js ''b'') (js ''Pending'')])
          initialDownloads))) = 1"
    by (simp add: st sample_states_differ)
  from second have "total_scanned (stats (loadDownloads
       (Inr [sampleItem (js ''a'') (js ''Pending''), sampleItem (js ''b'') (js ''Completed'')])
       (loadDownloads
          (Inr [sampleItem (js ''a'') (js ''Pending''), sampleItem (js ''b'') (js ''Pending'')])
          initialDownloads)))
     = length (filter (\<lambda>d. state d = Some (js ''Completed'') \<or> state d = Some (js ''Safe''))
         [sampleItem (js ''a'') (js ''Pending''), sampleItem (js ''b'') (js ''Completed'')])"
    by blast
  then have r3: "total_scanned (stats (loadDownloads
       (Inr [sampleItem (js ''a'') (js ''Pending''), sampleItem (js ''b'') (js ''Completed'')])
       (loadDownloads
          (Inr [sampleItem (js ''a'') (js ''Pending''), sampleItem (js ''b'') (js ''Pending'')])
          initialDownloads))) = 1"
    by (simp add: st sample_states_differ)
  show ?thesis using r1 r2 r3 by blast
qed

section \<open>Properties of the KeyboardInputMachine\<close>

lemma slice_drop_last: "slice 0 (-1) s = butlast s"
proof -
  have "nat (max (max (int (length s) + - 1) 0 - 0) 0) = length s - 1"
    by (simp add: max_def) arith
  then show ?thesis
    by (simp add: slice_def Let_def butlast_conv_take)
qed

lemma backspace_not_character: "js ''Backspace'' \<noteq> js ''Character''"
  by (simp add: js_def)

text \<open>
  Claim C10. A Backspace outcome removes the last code unit of the buffer and reports
  \<open>Backspace\<close> to the consumer; on the empty buffer it leaves the buffer empty, and
  \<open>slice(0, -1)\<close> of the empty string is the empty string: no error arises.
\<close>

theorem C10_backspace_total:
  "(result_type r = js ''Backspace'' \<longrightarrow>
      handleKeyPress (Inr r) k st = (st\<lparr>inputValue := butlast (inputValue st)\<rparr>, [js ''Backspace'']))
   \<and> (result_type r = js ''Backspace'' \<and> inputValue st = [] \<longrightarrow>
      inputValue (fst (handleKeyPress (Inr r) k st)) = [])
   \<and> slice 0 (-1) [] = []"
proof (intro conjI impI)
  assume "result_type r = js ''Backspace''"
  then show "handleKeyPress (Inr r) k st
            = (st\<lparr>inputValue := butlast (inputValue st)\<rparr>, [js ''Backspace''])"
    using backspace_not_character by (simp add: handleKeyPress_def slice_drop_last)
next
  assume "result_type r = js ''Backspace'' \<and> inputValue st = []"
  then show "inputValue (fst (handleKeyPress (Inr r) k st)) = []"
    using backspace_not_character by (simp add: handleKeyPress_def slice_drop_last)
next
  show "slice 0 (-1) [] = []"
    by (simp add: slice_drop_last)
qed

theorem C10_backspace_total_witness:
  "result_type sampleBackspace = js ''Backspace'' \<and> inputValue initialKeyboard = []
   \<and> handleKeyPress (Inr sampleBackspace) sampleKey initialKeyboard
       = (initialKeyboard, [js ''Backspace''])
   \<and> inputValue (fst (handleKeyPress (Inr sampleBackspace) sampleKey
                        (initialKeyboard\<lparr>inputValue := js ''ab''\<rparr>))) = js ''a''"
proof -
  have t: "result_type sampleBackspace = js ''Backspace''"
    by (simp add: sampleBackspace_def)
  have e: "inputValue initialKeyboard = []" "initialKeyboard\<lparr>inputValue := []\<rparr> = initialKeyboard"
    by (simp_all add: initialKeyboard_def)
  from C10_backspace_total [of sampleBackspace sampleKey initialKeyboard] t
  have "handleKeyPress (Inr sampleBackspace) sampleKey initialKeyboard
       = (initialKeyboard\<lparr>inputValue := butlast (inputValue initialKeyboard)\<rparr>, [js ''Backspace''])"
    by blast
  then have r1: "handleKeyPress (Inr sampleBackspace) sampleKey initialKeyboard
       = (initialKeyboard, [js ''Backspace''])"
    by (simp add: e)
  from C10_backspace_total
    [of sampleBackspace sampleKey "initialKeyboard\<lparr>inputValue := js ''ab''\<rparr>"] t
  have "handleKeyPress (Inr sampleBackspace) sampleKey (initialKeyboard\<lparr>inputValue := js ''ab''\<rparr>)
       = (initialKeyboard\<lparr>inputValue := js ''ab''\<rparr>
            \<lparr>inputValue := butlast (inputValue (initialKeyboard\<lparr>inputValue := js ''ab''\<rparr>))\<rparr>,
          [js ''Backspace''])"
    by blast
  then have r2: "inputValue (fst (handleKeyPress (Inr sampleBackspace) sampleKey
                        (initialKeyboard\<lparr>inputValue := js ''ab''\<rparr>))) = js ''a''"
    by (simp add: js_def)
  show ?thesis using t e r1 r2 by simp
qed

end
